theory Spec2Isabelle
  imports Main
begin

section \<open>Shared data model (shared/shared/models.py)\<close>

datatype TaskStatus = PENDING | SUCCESS | FAILED

text \<open>\<open>JobMode\<close> is a string enumeration; the dispatcher receives the mode as its string
  value and compares it with the enumeration members, so the members are their strings.\<close>

definition V2T :: string where "V2T = ''v2t''"
definition T2V :: string where "T2V = ''t2v''"

text \<open>A JSON object whose values are strings, in insertion order (a Python \<open>dict\<close>).\<close>

type_synonym dict = "(string \<times> string) list"

definition has_key :: "string \<Rightarrow> dict \<Rightarrow> bool" where
  "has_key k d = (map_of d k \<noteq> None)"

text \<open>\<open>TranscriptionResponse\<close> and \<open>SynthesisResponse\<close> have the same two fields;
  \<open>TaskResultResponse\<close> has these two and three optional ones, so it is written as the
  extension of the first record.\<close>

record TranscriptionResponse =
  task_id :: string
  status :: TaskStatus

type_synonym SynthesisResponse = TranscriptionResponse

record TaskResultResponse = TranscriptionResponse +
  transcribed_text :: "string option"
  audio_url :: "string option"
  error_message :: "string option"

section \<open>Python strings\<close>

definition startswith :: "string \<Rightarrow> string \<Rightarrow> bool" where
  "startswith s p = (take (length p) s = p)"

text \<open>\<open>sub in s\<close> on strings: \<open>sub\<close> occurs in \<open>s\<close> as a contiguous substring.\<close>

fun contains :: "string \<Rightarrow> string \<Rightarrow> bool" where
  "contains sub [] = (sub = [])"
| "contains sub (c # cs) = (startswith (c # cs) sub \<or> contains sub cs)"

text \<open>\<open>s.split(sep, 1)[-1]\<close> for a non-empty \<open>sep\<close>: what follows the first occurrence of
  \<open>sep\<close>, or all of \<open>s\<close> when \<open>sep\<close> does not occur.\<close>

fun after_first :: "string \<Rightarrow> string \<Rightarrow> string option" where
  "after_first sep [] = None"
| "after_first sep (c # cs) =
     (if startswith (c # cs) sep then Some (drop (length sep) (c # cs))
      else after_first sep cs)"

definition split1_last :: "string \<Rightarrow> string \<Rightarrow> string" where
  "split1_last sep s = (case after_first sep s of None \<Rightarrow> s | Some r \<Rightarrow> r)"

text \<open>\<open>str.strip()\<close>. A character of the model is a code point below 256; of these
  \<open>str.isspace\<close> accepts the space, \<open>\t \n \v \f \r\<close>, the separators 0x1c to 0x1f, the
  next-line character 0x85 and the no-break space 0xa0.\<close>

definition isspace :: "char \<Rightarrow> bool" where
  "isspace c =
     (let n = (of_char c :: nat)
      in n = 32 \<or> (9 \<le> n \<and> n \<le> 13) \<or> (28 \<le> n \<and> n \<le> 31) \<or> n = 133 \<or> n = 160)"

definition strip :: "string \<Rightarrow> string" where
  "strip s = rev (dropWhile isspace (rev (dropWhile isspace s)))"

section \<open>Exceptions and HTTP replies\<close>

datatype http_body = Json dict | Text string

record http_response =
  status_code :: nat
  body :: http_body

datatype exn =
    HTTPException nat string
  | HTTPStatusError http_response
  | TransportError string
  | ValueError string
  | KeyError string
  | AttributeError string
  | TypeError string
  | UnboundLocalError string
  | JSONDecodeError string
  | S3Error string
  | RedisError string
  | Exception string

text \<open>\<open>str(e)\<close>, as far as the code formats exceptions into messages. (The code catches
  every \<open>HTTPStatusError\<close> before it could be formatted; its message stands for the one
  naming the status and the URL.)\<close>

fun str_exn :: "exn \<Rightarrow> string" where
  "str_exn (HTTPException c d) = d"
| "str_exn (HTTPStatusError r) = ''HTTP status error''"
| "str_exn (TransportError m) = m"
| "str_exn (ValueError m) = m"
| "str_exn (KeyError m) = m"
| "str_exn (AttributeError m) = m"
| "str_exn (TypeError m) = m"
| "str_exn (UnboundLocalError m) = m"
| "str_exn (JSONDecodeError m) = m"
| "str_exn (S3Error m) = m"
| "str_exn (RedisError m) = m"
| "str_exn (Exception m) = m"

section \<open>The external collaborators\<close>

text \<open>
  The object store (MinIO), the key-value store (Redis), the inference server (Triton), the
  network between the services, and the Celery broker and result backend are libraries and
  servers outside the repository. Their state is the record \<open>world\<close>; when and how their
  calls fail is the record \<open>env\<close>, which the code cannot choose. A call that the \<open>env\<close>
  makes fail raises and leaves the store as it was.
\<close>

datatype redis_cmd = RPUSH | SETEX | LRANGE | DEL

record env =
  put_object_fault :: "string \<Rightarrow> string \<Rightarrow> string option"
  get_object_fault :: "string \<Rightarrow> string \<Rightarrow> string option"
  read_fault :: "string \<Rightarrow> string \<Rightarrow> string option"
  remove_object_fault :: "string \<Rightarrow> string \<Rightarrow> string option"
  presigned_url :: "string \<Rightarrow> string \<Rightarrow> string + string"
  whisper_infer :: "string \<Rightarrow> string + string list"
  chatterbox_infer :: "string \<Rightarrow> string + string"
  redis_fault :: "redis_cmd \<Rightarrow> string option"
  http_fault :: "string \<Rightarrow> string option"
  json_dumps :: "dict \<Rightarrow> string"

text \<open>The states of a Celery task and what the result backend keeps for it: the returned
  value of a task that succeeded, the exception instance of one that failed or is being
  retried.\<close>

datatype celery_state = C_PENDING | C_STARTED | C_RETRY | C_FAILURE | C_SUCCESS | C_REVOKED

datatype task_info = NoInfo | Returned dict | Raised exn

record task_meta =
  state :: celery_state
  info :: task_info

record message =
  msg_task_id :: string
  msg_mode :: string
  msg_input :: dict
  msg_retries :: nat

record world =
  minio :: "string \<times> string \<rightharpoonup> string"
  redis_lists :: "string \<rightharpoonup> string list"
  redis_strings :: "string \<rightharpoonup> string \<times> nat"
  backend :: "string \<rightharpoonup> task_meta"
  queue :: "message list"
  stdout :: "string list"

subsection \<open>Configuration defaults\<close>

definition MINIO_ENDPOINT :: string where "MINIO_ENDPOINT = ''minio:9000''"
definition MINIO_BUCKET_UNPROCESSED :: string where "MINIO_BUCKET_UNPROCESSED = ''unprocessed''"
definition MINIO_BUCKET_PROCESSED :: string where "MINIO_BUCKET_PROCESSED = ''processed''"
definition CLEANUP_TTL_SECONDS :: nat where "CLEANUP_TTL_SECONDS = 3600"

subsection \<open>Object store calls\<close>

definition put_object :: "env \<Rightarrow> world \<Rightarrow> string \<Rightarrow> string \<Rightarrow> string \<Rightarrow> exn + world" where
  "put_object e w bucket_name object_name data =
     (case put_object_fault e bucket_name object_name of
        Some m \<Rightarrow> Inl (S3Error m)
      | None \<Rightarrow> Inr (w\<lparr>minio := (minio w)((bucket_name, object_name) \<mapsto> data)\<rparr>))"

text \<open>Removing an object that is not there succeeds, as a delete does in S3.\<close>

definition remove_object :: "env \<Rightarrow> world \<Rightarrow> string \<Rightarrow> string \<Rightarrow> exn + world" where
  "remove_object e w bucket_name object_name =
     (case remove_object_fault e bucket_name object_name of
        Some m \<Rightarrow> Inl (S3Error m)
      | None \<Rightarrow> Inr (w\<lparr>minio := (minio w)((bucket_name, object_name) := None)\<rparr>))"

definition presigned_get_object :: "env \<Rightarrow> string \<Rightarrow> string \<Rightarrow> exn + string" where
  "presigned_get_object e bucket_name object_name =
     (case presigned_url e bucket_name object_name of
        Inl m \<Rightarrow> Inl (S3Error m)
      | Inr url \<Rightarrow> Inr url)"

subsection \<open>Celery: sending a task and reading its result\<close>

text \<open>\<open>send_task\<close> appends the message to the queue; a first delivery has made no retry.\<close>

definition send_task :: "world \<Rightarrow> string \<Rightarrow> dict \<Rightarrow> string \<Rightarrow> world" where
  "send_task w mode input_data tid =
     w\<lparr>queue := queue w @
        [\<lparr>msg_task_id = tid, msg_mode = mode, msg_input = input_data, msg_retries = 0\<rparr>]\<rparr>"

text \<open>\<open>AsyncResult(task_id)\<close>: a task identifier the result backend has no entry for is
  reported in the state PENDING, with no result.\<close>

definition AsyncResult :: "world \<Rightarrow> string \<Rightarrow> task_meta" where
  "AsyncResult w tid =
     (case backend w tid of None \<Rightarrow> \<lparr>state = C_PENDING, info = NoInfo\<rparr> | Some m \<Rightarrow> m)"

definition ready :: "task_meta \<Rightarrow> bool" where
  "ready t = (state t = C_SUCCESS \<or> state t = C_FAILURE \<or> state t = C_REVOKED)"

definition failed :: "task_meta \<Rightarrow> bool" where
  "failed t = (state t = C_FAILURE)"

definition successful :: "task_meta \<Rightarrow> bool" where
  "successful t = (state t = C_SUCCESS)"

section \<open>Submission gateway (services/api-gateway/main.py)\<close>

record UploadFile =
  filename :: "string option"
  file_bytes :: string

text \<open>An f-string renders a missing filename as \<open>None\<close>.\<close>

definition input_object_name_of :: "string \<Rightarrow> string option \<Rightarrow> string" where
  "input_object_name_of tid fname =
     tid @ ''_'' @ (case fname of None \<Rightarrow> ''None'' | Some f \<Rightarrow> f)"

text \<open>\<open>tid\<close> is the string of the fresh \<open>uuid.uuid4()\<close> the handler draws.\<close>

definition transcribe_audio ::
  "env \<Rightarrow> world \<Rightarrow> string \<Rightarrow> UploadFile \<Rightarrow> (exn + TranscriptionResponse) \<times> world" where
  "transcribe_audio e w tid audio_file =
     (let input_object_name = input_object_name_of tid (filename audio_file) in
      case put_object e w MINIO_BUCKET_UNPROCESSED input_object_name (file_bytes audio_file) of
        Inl x \<Rightarrow> (Inl (HTTPException 500 (''Failed to upload file: '' @ str_exn x)), w)
      | Inr w1 \<Rightarrow>
          (Inr \<lparr>task_id = tid, status = PENDING\<rparr>,
           send_task w1 V2T [(''input_object_name'', input_object_name)] tid))"

definition synthesize_text ::
  "world \<Rightarrow> string \<Rightarrow> string \<Rightarrow> (exn + SynthesisResponse) \<times> world" where
  "synthesize_text w tid text =
     (if strip text = [] then (Inl (HTTPException 400 ''Text content is required''), w)
      else (Inr \<lparr>task_id = tid, status = PENDING\<rparr>,
            send_task w T2V [(''text'', strip text)] tid))"

text \<open>\<open>task.info.get('error', 'Task failed') if task.info else 'Task failed'\<close>: \<open>None\<close>
  and the empty dict are false; an exception instance is true and has no \<open>get\<close>.\<close>

fun error_info_of :: "task_info \<Rightarrow> exn + string" where
  "error_info_of NoInfo = Inr ''Task failed''"
| "error_info_of (Returned d) =
     (if d = [] then Inr ''Task failed''
      else case map_of d ''error'' of None \<Rightarrow> Inr ''Task failed'' | Some v \<Rightarrow> Inr v)"
| "error_info_of (Raised x) = Inl (AttributeError ''get'')"

text \<open>\<open>task.get()\<close> of a successful task is its stored result; the membership tests that
  follow need a dict.\<close>

fun result_dict :: "task_info \<Rightarrow> exn + dict" where
  "result_dict (Returned d) = Inr d"
| "result_dict NoInfo = Inl (TypeError ''argument of type NoneType is not iterable'')"
| "result_dict (Raised x) = Inl (TypeError ''argument of type Exception is not iterable'')"

definition task_result_response ::
  "string \<Rightarrow> TaskStatus \<Rightarrow> string option \<Rightarrow> string option \<Rightarrow> string option \<Rightarrow> TaskResultResponse" where
  "task_result_response tid st tt au em =
     \<lparr>task_id = tid, status = st, transcribed_text = tt, audio_url = au, error_message = em\<rparr>"

definition get_task_result :: "env \<Rightarrow> world \<Rightarrow> string \<Rightarrow> exn + TaskResultResponse" where
  "get_task_result e w tid =
     (let task = AsyncResult w tid in
      if \<not> ready task then Inr (task_result_response tid PENDING None None None)
      else if failed task then
        (case error_info_of (info task) of
           Inl x \<Rightarrow> Inl x
         | Inr error_info \<Rightarrow> Inr (task_result_response tid FAILED None None (Some error_info)))
      else if \<not> successful task then
        Inr (task_result_response tid FAILED None None (Some ''Task was not successful''))
      else
        (case result_dict (info task) of
           Inl x \<Rightarrow> Inl x
         | Inr result \<Rightarrow>
             (case (if has_key ''output_object_name'' result
                    then (case presigned_get_object e MINIO_BUCKET_PROCESSED
                                 (the (map_of result ''output_object_name'')) of
                            Inl x \<Rightarrow> Inl x
                          | Inr signed_url \<Rightarrow> Inr (Some (split1_last MINIO_ENDPOINT signed_url)))
                    else Inr None) of
                Inl x \<Rightarrow> Inl x
              | Inr au \<Rightarrow>
                  Inr (task_result_response tid SUCCESS
                         (map_of result ''transcribed_text'') au None))))"

section \<open>Redis calls\<close>

text \<open>A key holds one value: a list (\<open>redis_lists\<close>) or a string with its time to live
  (\<open>redis_strings\<close>). A list command on a key that holds a string is refused; \<open>SETEX\<close>
  replaces whatever the key held; \<open>DEL\<close> removes the key.\<close>

definition rpush :: "env \<Rightarrow> world \<Rightarrow> string \<Rightarrow> string list \<Rightarrow> exn + world" where
  "rpush e w key vals =
     (case redis_fault e RPUSH of
        Some m \<Rightarrow> Inl (RedisError m)
      | None \<Rightarrow>
          if redis_strings w key \<noteq> None then Inl (RedisError ''WRONGTYPE'')
          else Inr (w\<lparr>redis_lists := (redis_lists w)
                 (key \<mapsto> (case redis_lists w key of None \<Rightarrow> [] | Some l \<Rightarrow> l) @ vals)\<rparr>))"

definition setex :: "env \<Rightarrow> world \<Rightarrow> string \<Rightarrow> nat \<Rightarrow> string \<Rightarrow> exn + world" where
  "setex e w key ttl v =
     (case redis_fault e SETEX of
        Some m \<Rightarrow> Inl (RedisError m)
      | None \<Rightarrow> Inr (w\<lparr>redis_lists := (redis_lists w)(key := None),
                        redis_strings := (redis_strings w)(key \<mapsto> (v, ttl))\<rparr>))"

definition lrange_all :: "env \<Rightarrow> world \<Rightarrow> string \<Rightarrow> exn + string list" where
  "lrange_all e w key =
     (case redis_fault e LRANGE of
        Some m \<Rightarrow> Inl (RedisError m)
      | None \<Rightarrow>
          if redis_strings w key \<noteq> None then Inl (RedisError ''WRONGTYPE'')
          else Inr (case redis_lists w key of None \<Rightarrow> [] | Some l \<Rightarrow> l))"

definition redis_delete :: "env \<Rightarrow> world \<Rightarrow> string \<Rightarrow> exn + world" where
  "redis_delete e w key =
     (case redis_fault e DEL of
        Some m \<Rightarrow> Inl (RedisError m)
      | None \<Rightarrow> Inr (w\<lparr>redis_lists := (redis_lists w)(key := None),
                        redis_strings := (redis_strings w)(key := None)\<rparr>))"

definition print :: "world \<Rightarrow> string \<Rightarrow> world" where
  "print w line = w\<lparr>stdout := stdout w @ [line]\<rparr>"

section \<open>Cleanup worker (services/cleanup-worker/main.py)\<close>

definition bucket_for :: "string \<Rightarrow> string" where
  "bucket_for object_name =
     (if contains ''input'' object_name then MINIO_BUCKET_UNPROCESSED
      else MINIO_BUCKET_PROCESSED)"

text \<open>One round of the loop over \<open>files_to_delete\<close>: the delete, and the line printed for
  its success or for its failure.\<close>

definition delete_file :: "env \<Rightarrow> world \<Rightarrow> string \<Rightarrow> world" where
  "delete_file e w object_name =
     (let bucket = bucket_for object_name in
      case remove_object e w bucket object_name of
        Inr w1 \<Rightarrow> print w1 (''Deleted '' @ object_name @ '' from '' @ bucket)
      | Inl x \<Rightarrow> print w (''Error deleting '' @ object_name @ '': '' @ str_exn x))"

fun delete_files :: "env \<Rightarrow> world \<Rightarrow> string list \<Rightarrow> world" where
  "delete_files e w [] = w"
| "delete_files e w (object_name # rest) = delete_files e (delete_file e w object_name) rest"

definition process_cleanup_task :: "env \<Rightarrow> world \<Rightarrow> string \<Rightarrow> (exn + unit) \<times> world" where
  "process_cleanup_task e w tid =
     (let files_key = ''files:'' @ tid in
      case lrange_all e w files_key of
        Inl x \<Rightarrow> (Inl x, w)
      | Inr files_to_delete \<Rightarrow>
          if files_to_delete = [] then (Inr (), w)
          else
            (let w1 = delete_files e w files_to_delete in
             case redis_delete e w1 files_key of
               Inl x \<Rightarrow> (Inl x, w1)
             | Inr w2 \<Rightarrow> (Inr (), print w2 (''Cleanup completed for task '' @ tid))))"

text \<open>The body of the listener's loop for one expiry notification; the key of an expired
  trigger is \<open>cleanup:\<close> followed by the task identifier.\<close>

definition on_expired :: "env \<Rightarrow> world \<Rightarrow> string \<Rightarrow> (exn + unit) \<times> world" where
  "on_expired e w expired_key =
     (if startswith expired_key ''cleanup:''
      then (case after_first '':'' expired_key of
              None \<Rightarrow> (Inl (KeyError ''1''), w)
            | Some tid \<Rightarrow> process_cleanup_task e w tid)
      else (Inr (), w))"

section \<open>Backend services\<close>

text \<open>What FastAPI replies for the outcome of a handler: the model as JSON, an
  \<open>HTTPException\<close> as its status with the detail in a JSON body, any other exception as a
  plain-text 500.\<close>

fun fastapi_reply :: "exn + dict \<Rightarrow> http_response" where
  "fastapi_reply (Inr d) = \<lparr>status_code = 200, body = Json d\<rparr>"
| "fastapi_reply (Inl (HTTPException c d)) = \<lparr>status_code = c, body = Json [(''detail'', d)]\<rparr>"
| "fastapi_reply (Inl x) = \<lparr>status_code = 500, body = Text ''Internal Server Error''\<rparr>"

subsection \<open>Text to speech (services/tts-service/main.py)\<close>

record TTSRequest =
  text_to_synthesize :: string
  request_task_id :: string

definition synthesize_speech :: "env \<Rightarrow> world \<Rightarrow> TTSRequest \<Rightarrow> (exn + dict) \<times> world" where
  "synthesize_speech e w request =
     (case chatterbox_infer e (text_to_synthesize request) of
        Inl m \<Rightarrow> (Inl (HTTPException 503 (''Triton inference failed: '' @ m)), w)
      | Inr raw_audio \<Rightarrow>
          (let output_object_name = request_task_id request @ ''.wav'' in
           case put_object e w MINIO_BUCKET_PROCESSED output_object_name raw_audio of
             Inl x \<Rightarrow> (Inl (HTTPException 500 (''Failed to upload audio: '' @ str_exn x)), w)
           | Inr w1 \<Rightarrow> (Inr [(''output_object_name'', output_object_name)], w1)))"

subsection \<open>Speech to text (services/stt-service/main.py)\<close>

text \<open>When \<open>get_object\<close> raises, the \<open>finally\<close> block closes an \<open>audio_object\<close> that was
  never bound, and the error of that replaces the 404; when only the read fails, the
  object is bound and the 404 stands.\<close>

definition stt_transcribe_audio :: "env \<Rightarrow> world \<Rightarrow> string \<Rightarrow> exn + dict" where
  "stt_transcribe_audio e w input_object_name =
     (case get_object_fault e MINIO_BUCKET_UNPROCESSED input_object_name of
        Some m \<Rightarrow> Inl (UnboundLocalError ''audio_object'')
      | None \<Rightarrow>
          (case minio w (MINIO_BUCKET_UNPROCESSED, input_object_name) of
             None \<Rightarrow> Inl (UnboundLocalError ''audio_object'')
           | Some audio_bytes \<Rightarrow>
               (case read_fault e MINIO_BUCKET_UNPROCESSED input_object_name of
                  Some m \<Rightarrow> Inl (HTTPException 404 (''Could not retrieve file: '' @ m))
                | None \<Rightarrow>
                    (case whisper_infer e audio_bytes of
                       Inl m \<Rightarrow> Inl (HTTPException 503 (''Triton inference failed: '' @ m))
                     | Inr output_data \<Rightarrow>
                         Inr [(''text'', (case output_data of [] \<Rightarrow> [] | t # _ \<Rightarrow> t))]))))"

section \<open>Dispatcher (services/orchestrator/tasks.py)\<close>

definition stt_url :: string where "stt_url = ''http://stt-service:8000/v1/transcribe''"
definition tts_url :: string where "tts_url = ''http://tts-service:8000/v1/synthesize''"

definition max_retries :: nat where "max_retries = 3"

text \<open>\<open>client.post\<close> to one of the two services: the request reaches the service unless the
  network fails, and the service's handler runs on the shared stores.\<close>

definition post_stt :: "env \<Rightarrow> world \<Rightarrow> string \<Rightarrow> (exn + http_response) \<times> world" where
  "post_stt e w input_object_name =
     (case http_fault e stt_url of
        Some m \<Rightarrow> (Inl (TransportError m), w)
      | None \<Rightarrow> (Inr (fastapi_reply (stt_transcribe_audio e w input_object_name)), w))"

definition post_tts :: "env \<Rightarrow> world \<Rightarrow> TTSRequest \<Rightarrow> (exn + http_response) \<times> world" where
  "post_tts e w request =
     (case http_fault e tts_url of
        Some m \<Rightarrow> (Inl (TransportError m), w)
      | None \<Rightarrow> (case synthesize_speech e w request of (r, w1) \<Rightarrow> (Inr (fastapi_reply r), w1)))"

definition raise_for_status :: "http_response \<Rightarrow> exn + http_response" where
  "raise_for_status r =
     (if 200 \<le> status_code r \<and> status_code r < 300 then Inr r else Inl (HTTPStatusError r))"

text \<open>\<open>response.json()[key]\<close>.\<close>

definition json_item :: "http_response \<Rightarrow> string \<Rightarrow> exn + string" where
  "json_item r key =
     (case body r of
        Text t \<Rightarrow> Inl (JSONDecodeError t)
      | Json d \<Rightarrow> (case map_of d key of None \<Rightarrow> Inl (KeyError key) | Some v \<Rightarrow> Inr v))"

text \<open>\<open>e.response.json().get("detail", e.response.text)\<close>; a response object is true.\<close>

definition error_details :: "env \<Rightarrow> http_response \<Rightarrow> exn + string" where
  "error_details e r =
     (case body r of
        Text t \<Rightarrow> Inl (JSONDecodeError t)
      | Json d \<Rightarrow> (case map_of d ''detail'' of None \<Rightarrow> Inr (json_dumps e d) | Some v \<Rightarrow> Inr v))"

definition warn_cleanup :: "world \<Rightarrow> string \<Rightarrow> exn \<Rightarrow> world" where
  "warn_cleanup w tid x =
     print w (''WARNING: Failed to schedule cleanup for task '' @ tid @ '': '' @ str_exn x)"

definition schedule_cleanup :: "env \<Rightarrow> world \<Rightarrow> string \<Rightarrow> dict \<Rightarrow> dict \<Rightarrow> world" where
  "schedule_cleanup e w tid input_data result_data =
     (let files_to_delete =
            (if has_key ''input_object_name'' input_data
             then [the (map_of input_data ''input_object_name'')] else []) @
            (if has_key ''output_object_name'' result_data
             then [the (map_of result_data ''output_object_name'')] else [])
      in if files_to_delete \<noteq> [] then
           (let files_key = ''files:'' @ tid; cleanup_trigger_key = ''cleanup:'' @ tid in
            case rpush e w files_key files_to_delete of
              Inl x \<Rightarrow> warn_cleanup w tid x
            | Inr w1 \<Rightarrow>
                (case setex e w1 cleanup_trigger_key CLEANUP_TTL_SECONDS ''1'' of
                   Inl x \<Rightarrow> warn_cleanup w1 tid x
                 | Inr w2 \<Rightarrow> w2))
         else w)"

text \<open>The \<open>try\<close> block of \<open>process_pipeline\<close> up to \<open>final_result\<close>.\<close>

definition pipeline_result ::
  "env \<Rightarrow> world \<Rightarrow> string \<Rightarrow> string \<Rightarrow> dict \<Rightarrow> (exn + dict) \<times> world" where
  "pipeline_result e w tid mode input_data =
     (if mode = V2T then
        (if \<not> has_key ''input_object_name'' input_data
         then (Inl (ValueError ''input_object_name is required for V2T mode''), w)
         else
           (case post_stt e w (the (map_of input_data ''input_object_name'')) of
              (Inl x, w1) \<Rightarrow> (Inl x, w1)
            | (Inr response, w1) \<Rightarrow>
                (case raise_for_status response of
                   Inl x \<Rightarrow> (Inl x, w1)
                 | Inr r \<Rightarrow>
                     (case json_item r ''text'' of
                        Inl x \<Rightarrow> (Inl x, w1)
                      | Inr transcribed \<Rightarrow>
                          (Inr [(''transcribed_text'', transcribed)], w1)))))
      else if mode = T2V then
        (if \<not> has_key ''text'' input_data
         then (Inl (ValueError ''text is required for T2V mode''), w)
         else
           (case post_tts e w \<lparr>text_to_synthesize = the (map_of input_data ''text''),
                                request_task_id = tid\<rparr> of
              (Inl x, w1) \<Rightarrow> (Inl x, w1)
            | (Inr response, w1) \<Rightarrow>
                (case raise_for_status response of
                   Inl x \<Rightarrow> (Inl x, w1)
                 | Inr r \<Rightarrow>
                     (case json_item r ''output_object_name'' of
                        Inl x \<Rightarrow> (Inl x, w1)
                      | Inr output_object_name \<Rightarrow>
                          (Inr [(''output_object_name'', output_object_name)], w1)))))
      else (Inl (ValueError (''Unsupported mode: '' @ mode)), w))"

text \<open>How one run of the task ends: it returns its result, it asks to be run again, or it
  raises.\<close>

datatype outcome = Return dict | Retry exn | Raise exn

text \<open>Celery's \<open>self.retry(exc=exc)\<close> for a task bound with \<open>max_retries=3\<close>: the request
  counts the retries made so far (0 on the first delivery); when one more would exceed
  \<open>max_retries\<close> the given exception is raised, otherwise the same task is sent again with
  the count increased and \<open>Retry\<close> is raised.\<close>

definition retry :: "world \<Rightarrow> message \<Rightarrow> exn \<Rightarrow> outcome \<times> world" where
  "retry w request exc =
     (let retries = msg_retries request + 1 in
      if retries > max_retries then (Raise exc, w)
      else (Retry exc, w\<lparr>queue := queue w @ [request\<lparr>msg_retries := retries\<rparr>]\<rparr>))"

definition process_pipeline ::
  "env \<Rightarrow> world \<Rightarrow> message \<Rightarrow> string \<Rightarrow> dict \<Rightarrow> outcome \<times> world" where
  "process_pipeline e w request mode input_data =
     (let tid = msg_task_id request in
      case pipeline_result e w tid mode input_data of
        (Inr final_result, w1) \<Rightarrow>
          (Return final_result, schedule_cleanup e w1 tid input_data final_result)
      | (Inl (HTTPStatusError r), w1) \<Rightarrow>
          (case error_details e r of
             Inl x \<Rightarrow> (Raise x, w1)
           | Inr d \<Rightarrow> retry w1 request (Exception (''HTTP Error: '' @ d)))
      | (Inl x, w1) \<Rightarrow> retry w1 request x)"

subsection \<open>The Celery worker around the task\<close>

text \<open>Storing a state in Celery's key-value result backend (here Redis): the backend
  reads the stored entry first and ignores the update when that entry is in the state
  SUCCESS; otherwise the entry is replaced.\<close>

definition store_result :: "world \<Rightarrow> string \<Rightarrow> celery_state \<Rightarrow> task_info \<Rightarrow> world" where
  "store_result w tid st i =
     (if state (AsyncResult w tid) = C_SUCCESS then w
      else w\<lparr>backend := (backend w)(tid \<mapsto> \<lparr>state = st, info = i\<rparr>)\<rparr>)"

text \<open>One delivery of a message: the task is marked started (\<open>task_track_started\<close>), runs,
  and its outcome is stored under the task identifier.\<close>

definition deliver :: "env \<Rightarrow> world \<Rightarrow> message \<Rightarrow> world" where
  "deliver e w request =
     (let tid = msg_task_id request in
      case process_pipeline e (store_result w tid C_STARTED NoInfo) request
             (msg_mode request) (msg_input request) of
        (Return r, w1) \<Rightarrow> store_result w1 tid C_SUCCESS (Returned r)
      | (Retry x, w1) \<Rightarrow> store_result w1 tid C_RETRY (Raised x)
      | (Raise x, w1) \<Rightarrow> store_result w1 tid C_FAILURE (Raised x))"

text \<open>The worker takes the message at the head of the queue, and acknowledges it (removes
  it) after the delivery has ended (\<open>task_acks_late\<close>). Each delivery meets the
  collaborators in a state of their own: the list gives one \<open>env\<close> per delivery.\<close>

definition ack :: "world \<Rightarrow> world" where
  "ack w = w\<lparr>queue := tl (queue w)\<rparr>"

fun worker :: "env list \<Rightarrow> world \<Rightarrow> world" where
  "worker [] w = w"
| "worker (e # es) w =
     (case queue w of
        [] \<Rightarrow> w
      | request # rest \<Rightarrow> worker es (ack (deliver e w request)))"

section \<open>Client library (client-library/voiceflow)\<close>






fun str_status :: "TaskStatus \<Rightarrow> string" where
  "str_status PENDING = ''PENDING''"
| "str_status SUCCESS = ''SUCCESS''"
| "str_status FAILED = ''FAILED''"

definition parse_status :: "string \<Rightarrow> TaskStatus option" where
  "parse_status s =
     (if s = ''PENDING'' then Some PENDING
      else if s = ''SUCCESS'' then Some SUCCESS
      else if s = ''FAILED'' then Some FAILED
      else None)"



text \<open>The JSON of a \<open>TaskResultResponse\<close>. A field that is \<open>None\<close> is left out here: the
  client reads the optional fields with \<open>get\<close> and tests them against \<open>None\<close>, so that a
  null field and an absent one are the same to it.\<close>

definition opt_item :: "string \<Rightarrow> string option \<Rightarrow> dict" where
  "opt_item k v = (case v of None \<Rightarrow> [] | Some s \<Rightarrow> [(k, s)])"










section \<open>Notions of the statements\<close>

text \<open>The string of a \<open>uuid4\<close>: 36 characters, lower-case hexadecimal digits and hyphens.\<close>

definition is_uuid_str :: "string \<Rightarrow> bool" where
  "is_uuid_str s = (length s = 36 \<and> (\<forall>c \<in> set s. c \<in> set ''0123456789abcdef-''))"

text \<open>The line the cleanup loop prints for one object name.\<close>

definition delete_line :: "env \<Rightarrow> string \<Rightarrow> string" where
  "delete_line e object_name =
     (case remove_object_fault e (bucket_for object_name) object_name of
        None \<Rightarrow> ''Deleted '' @ object_name @ '' from '' @ bucket_for object_name
      | Some m \<Rightarrow> ''Error deleting '' @ object_name @ '': '' @ m)"

text \<open>What the speech-to-text branch of \<open>pipeline_result\<close> makes of the outcome of its
  request.\<close>

definition v2t_outcome :: "exn + http_response \<Rightarrow> exn + dict" where
  "v2t_outcome p =
     (case p of
        Inl x \<Rightarrow> Inl x
      | Inr response \<Rightarrow>
          (case raise_for_status response of
             Inl x \<Rightarrow> Inl x
           | Inr r \<Rightarrow>
               (case json_item r ''text'' of
                  Inl x \<Rightarrow> Inl x
                | Inr t \<Rightarrow> Inr [(''transcribed_text'', t)])))"

text \<open>The errors of a backend invocation: the backend cannot be reached, or it answers
  with an error status.\<close>

fun backend_error :: "exn \<Rightarrow> bool" where
  "backend_error (HTTPStatusError r) = True"
| "backend_error (TransportError m) = True"
| "backend_error x = False"

text \<open>Of these, the task hands to \<open>self.retry\<close> a transport error and an error status whose
  body is JSON (what the services send for an \<open>HTTPException\<close>). For an error status with
  any other body (the plain-text 500 that a service sends for an exception of another
  class) the \<open>except\<close> clause raises while it decodes the body.\<close>

fun retriable_error :: "exn \<Rightarrow> bool" where
  "retriable_error (HTTPStatusError r) = (case body r of Json d \<Rightarrow> True | Text t \<Rightarrow> False)"
| "retriable_error (TransportError m) = True"
| "retriable_error x = False"

fun undecodable_error :: "exn \<Rightarrow> bool" where
  "undecodable_error (HTTPStatusError r) = (case body r of Json d \<Rightarrow> False | Text t \<Rightarrow> True)"
| "undecodable_error x = False"


text \<open>The attempt to process \<open>request\<close> fails with an error of the backend invocation: any
  such error, a retriable one, one that cannot be decoded.\<close>

definition invocation_fails :: "env \<Rightarrow> world \<Rightarrow> message \<Rightarrow> bool" where
  "invocation_fails e w request =
     (case fst (pipeline_result e w (msg_task_id request) (msg_mode request)
                  (msg_input request)) of
        Inl x \<Rightarrow> backend_error x
      | Inr r \<Rightarrow> False)"

definition retriable_failure :: "env \<Rightarrow> world \<Rightarrow> message \<Rightarrow> bool" where
  "retriable_failure e w request =
     (case fst (pipeline_result e w (msg_task_id request) (msg_mode request)
                  (msg_input request)) of
        Inl x \<Rightarrow> retriable_error x
      | Inr r \<Rightarrow> False)"

definition undecodable_failure :: "env \<Rightarrow> world \<Rightarrow> message \<Rightarrow> bool" where
  "undecodable_failure e w request =
     (case fst (pipeline_result e w (msg_task_id request) (msg_mode request)
                  (msg_input request)) of
        Inl x \<Rightarrow> undecodable_error x
      | Inr r \<Rightarrow> False)"

text \<open>The list \<open>files_to_delete\<close> that \<open>schedule_cleanup\<close> builds.\<close>

definition files_to_delete :: "dict \<Rightarrow> dict \<Rightarrow> string list" where
  "files_to_delete input_data result_data =
     (if has_key ''input_object_name'' input_data
      then [the (map_of input_data ''input_object_name'')] else []) @
     (if has_key ''output_object_name'' result_data
      then [the (map_of result_data ''output_object_name'')] else [])"

section \<open>Sample collaborators, stores and jobs\<close>

text \<open>Collaborators that never fail, and stores with nothing in them.\<close>

definition env_ok :: env where
  "env_ok =
     \<lparr>put_object_fault = (\<lambda>b n. None),
      get_object_fault = (\<lambda>b n. None),
      read_fault = (\<lambda>b n. None),
      remove_object_fault = (\<lambda>b n. None),
      presigned_url =
        (\<lambda>b n. Inr (''http://minio:9000/'' @ b @ ''/'' @ n @ ''?X-Amz-Expires=900'')),
      whisper_infer = (\<lambda>a. Inr [''hello world'']),
      chatterbox_infer = (\<lambda>t. Inr ''RIFF''),
      redis_fault = (\<lambda>c. None),
      http_fault = (\<lambda>u. None),
      json_dumps = (\<lambda>d. ''{}'')\<rparr>"

definition world_empty :: world where
  "world_empty =
     \<lparr>minio = Map.empty, redis_lists = Map.empty, redis_strings = Map.empty,
      backend = Map.empty, queue = [], stdout = []\<rparr>"

definition sample_id :: string where
  "sample_id = ''3f2b8c1e-9d4a-4c6b-8e2f-0a1b2c3d4e5f''"

text \<open>An object store that refuses every upload, and an upload.\<close>

definition env_put_down :: env where
  "env_put_down = env_ok\<lparr>put_object_fault := (\<lambda>b n. Some ''connection refused'')\<rparr>"

definition sample_upload :: UploadFile where
  "sample_upload = \<lparr>filename = Some ''speech.wav'', file_bytes = ''RIFF''\<rparr>"

text \<open>A result backend that holds a transcription, and one that holds a revoked task.\<close>

definition world_transcribed :: world where
  "world_transcribed =
     store_result world_empty sample_id C_SUCCESS (Returned [(''transcribed_text'', ''hello world'')])"

definition world_revoked :: world where
  "world_revoked = store_result world_empty sample_id C_REVOKED NoInfo"

text \<open>An object store that fails to delete one of two listed objects.\<close>

definition env_remove_flaky :: env where
  "env_remove_flaky =
     env_ok\<lparr>remove_object_fault := (\<lambda>b n. if n = ''a.wav'' then Some ''timeout'' else None)\<rparr>"

definition world_two_files :: world where
  "world_two_files =
     world_empty\<lparr>minio := [(''processed'', ''a.wav'') \<mapsto> ''A'', (''processed'', ''b.wav'') \<mapsto> ''B''],
                 redis_lists := [''files:t1'' \<mapsto> [''a.wav'', ''b.wav'']]\<rparr>"

text \<open>A text-to-speech job whose inference fails, and the stores after its submission.\<close>

definition env_tts_down :: env where
  "env_tts_down = env_ok\<lparr>chatterbox_infer := (\<lambda>t. Inl ''model unavailable'')\<rparr>"



text \<open>A text-to-speech backend that is up and gives other audio for the same text.\<close>

definition env_other_voice :: env where
  "env_other_voice = env_ok\<lparr>chatterbox_infer := (\<lambda>t. Inr ''RIFX'')\<rparr>"

definition job_t2v :: message where
  "job_t2v = \<lparr>msg_task_id = ''job-1'', msg_mode = T2V, msg_input = [(''text'', ''hello'')],
              msg_retries = 0\<rparr>"

definition world_t2v_queued :: world where
  "world_t2v_queued = send_task world_empty T2V [(''text'', ''hello'')] ''job-1''"



section \<open>Basic facts\<close>


lemma startswith_Cons: "startswith (c # cs) (p # ps) = (c = p \<and> startswith cs ps)"
  by (auto simp: startswith_def)

lemma startswith_Nil [simp]: "startswith s [] = True"
  by (simp add: startswith_def)

lemma contains_skip:
  "p \<notin> set xs \<Longrightarrow> contains (p # ps) (xs @ ys) = contains (p # ps) ys"
  by (induction xs) (auto simp: startswith_Cons)

lemma uuid_no_i:
  assumes "is_uuid_str s"
  shows "CHR ''i'' \<notin> set s"
proof
  assume "CHR ''i'' \<in> set s"
  with assms have "CHR ''i'' \<in> set ''0123456789abcdef-''"
    unfolding is_uuid_str_def by blast
  then show False by simp
qed

lemma sample_id_uuid: "is_uuid_str sample_id"
  by (simp add: is_uuid_str_def sample_id_def)

lemma buckets_differ: "MINIO_BUCKET_UNPROCESSED \<noteq> MINIO_BUCKET_PROCESSED"
  by (simp add: MINIO_BUCKET_UNPROCESSED_def MINIO_BUCKET_PROCESSED_def)

lemma minio_print [simp]: "minio (print w l) = minio w"
  by (simp add: print_def)

section \<open>The bucket a cleanup delete goes to\<close>

lemma contains_input_object_name:
  assumes "is_uuid_str tid"
  shows "contains ''input'' (input_object_name_of tid (Some fname)) = contains ''input'' fname"
proof -
  have "CHR ''i'' \<notin> set (tid @ ''_'')"
    using uuid_no_i [OF assms] by simp
  then have "contains ''input'' ((tid @ ''_'') @ fname) = contains ''input'' fname"
    by (rule contains_skip)
  then show ?thesis
    by (simp add: input_object_name_of_def)
qed

lemma contains_wav:
  assumes "is_uuid_str tid"
  shows "\<not> contains ''input'' (tid @ ''.wav'')"
proof -
  have "contains ''input'' (tid @ ''.wav'') = contains ''input'' ''.wav''"
    using uuid_no_i [OF assms] by (rule contains_skip)
  also have "\<dots> = False"
    by (simp add: startswith_def)
  finally show ?thesis by simp
qed

lemma delete_file_minio:
  "minio (delete_file e w n) =
     (case remove_object_fault e (bucket_for n) n of
        None \<Rightarrow> (minio w)((bucket_for n, n) := None)
      | Some m \<Rightarrow> minio w)"
  by (simp add: delete_file_def remove_object_def Let_def split: option.splits)

text \<open>
  Claim C10. The cleanup worker sends the delete of an object name to the unprocessed
  bucket exactly when the name contains \<open>input\<close>, and to the processed bucket otherwise,
  and the delete removes the object of that name from that bucket. An upload of the
  gateway is named by the task identifier (a uuid), an underscore and the original file
  name, so its delete goes to the unprocessed bucket exactly when the original file name
  contains \<open>input\<close>; an output \<open>{task_id}.wav\<close> goes to the processed bucket. For an upload
  whose file name does not contain \<open>input\<close> the delete therefore goes to the processed
  bucket, the wrong one, and the uploaded object stays in the unprocessed bucket.
\<close>

theorem cleanup_bucket_by_substring:
  assumes "is_uuid_str tid"
  shows "bucket_for object_name =
           (if contains ''input'' object_name then MINIO_BUCKET_UNPROCESSED
            else MINIO_BUCKET_PROCESSED)
       \<and> (remove_object_fault e (bucket_for object_name) object_name = None \<longrightarrow>
            minio (delete_file e w object_name) =
              (minio w)((bucket_for object_name, object_name) := None))
       \<and> (bucket_for (input_object_name_of tid (Some fname)) = MINIO_BUCKET_UNPROCESSED
            \<longleftrightarrow> contains ''input'' fname)
       \<and> bucket_for (tid @ ''.wav'') = MINIO_BUCKET_PROCESSED
       \<and> (\<not> contains ''input'' fname \<longrightarrow>
            bucket_for (input_object_name_of tid (Some fname)) = MINIO_BUCKET_PROCESSED
          \<and> minio (delete_file e w (input_object_name_of tid (Some fname)))
               (MINIO_BUCKET_UNPROCESSED, input_object_name_of tid (Some fname))
            = minio w (MINIO_BUCKET_UNPROCESSED, input_object_name_of tid (Some fname)))"
proof -
  have c: "contains ''input'' (input_object_name_of tid (Some fname)) = contains ''input'' fname"
    by (rule contains_input_object_name [OF assms])
  have 1: "bucket_for object_name =
           (if contains ''input'' object_name then MINIO_BUCKET_UNPROCESSED
            else MINIO_BUCKET_PROCESSED)"
    by (simp only: bucket_for_def)
  have 2: "remove_object_fault e (bucket_for object_name) object_name = None \<longrightarrow>
            minio (delete_file e w object_name) =
              (minio w)((bucket_for object_name, object_name) := None)"
    by (simp add: delete_file_minio)
  have 3: "bucket_for (input_object_name_of tid (Some fname)) = MINIO_BUCKET_UNPROCESSED
            \<longleftrightarrow> contains ''input'' fname"
    using buckets_differ by (simp add: bucket_for_def c)
  have 4: "bucket_for (tid @ ''.wav'') = MINIO_BUCKET_PROCESSED"
    using contains_wav [OF assms] by (simp add: bucket_for_def)
  have 5: "bucket_for (input_object_name_of tid (Some fname)) = MINIO_BUCKET_PROCESSED"
    if "\<not> contains ''input'' fname"
    using that by (simp add: bucket_for_def c)
  have 6: "minio (delete_file e w (input_object_name_of tid (Some fname)))
               (MINIO_BUCKET_UNPROCESSED, input_object_name_of tid (Some fname))
            = minio w (MINIO_BUCKET_UNPROCESSED, input_object_name_of tid (Some fname))"
    if "\<not> contains ''input'' fname"
    using buckets_differ by (simp add: delete_file_minio 5 [OF that] split: option.splits)
  have 56: "\<not> contains ''input'' fname \<longrightarrow>
            bucket_for (input_object_name_of tid (Some fname)) = MINIO_BUCKET_PROCESSED
          \<and> minio (delete_file e w (input_object_name_of tid (Some fname)))
               (MINIO_BUCKET_UNPROCESSED, input_object_name_of tid (Some fname))
            = minio w (MINIO_BUCKET_UNPROCESSED, input_object_name_of tid (Some fname))"
    using 5 6 by (intro impI conjI)
  show ?thesis
    by (rule conjI [OF 1 conjI [OF 2 conjI [OF 3 conjI [OF 4 56]]]])
qed

lemma no_input_in_speech_wav: "\<not> contains ''input'' ''speech.wav''"
  by (simp add: startswith_def)

theorem cleanup_bucket_by_substring_witness:
  "is_uuid_str sample_id
   \<and> \<not> contains ''input'' ''speech.wav''
   \<and> remove_object_fault env_ok (bucket_for ''speech.wav'') ''speech.wav'' = None
   \<and> bucket_for (input_object_name_of sample_id (Some ''speech.wav'')) = MINIO_BUCKET_PROCESSED
   \<and> minio (delete_file env_ok world_empty ''speech.wav'') =
       (minio world_empty)((bucket_for ''speech.wav'', ''speech.wav'') := None)"
  using cleanup_bucket_by_substring
          [OF sample_id_uuid, of "''speech.wav''" env_ok world_empty "''speech.wav''"]
        sample_id_uuid no_input_in_speech_wav
  by (simp add: env_ok_def)

section \<open>Submission\<close>

text \<open>
  Claim C5. When the upload of the audio to the object store fails, the submission fails
  with the storage error (the HTTP error 500 \<open>Failed to upload file\<close>), and the stores are
  left as they were: no work item is put on the queue.
\<close>

theorem upload_failure_not_enqueued:
  assumes "put_object_fault e MINIO_BUCKET_UNPROCESSED
             (input_object_name_of tid (filename audio_file)) = Some m"
  shows "transcribe_audio e w tid audio_file =
           (Inl (HTTPException 500 (''Failed to upload file: '' @ m)), w)
       \<and> queue (snd (transcribe_audio e w tid audio_file)) = queue w"
  using assms by (simp add: transcribe_audio_def put_object_def Let_def)

theorem upload_failure_not_enqueued_witness:
  "put_object_fault env_put_down MINIO_BUCKET_UNPROCESSED
     (input_object_name_of sample_id (filename sample_upload)) = Some ''connection refused''
   \<and> transcribe_audio env_put_down world_empty sample_id sample_upload =
       (Inl (HTTPException 500 ''Failed to upload file: connection refused''), world_empty)"
  using upload_failure_not_enqueued
          [of env_put_down sample_id sample_upload "''connection refused''" world_empty]
  by (simp add: env_put_down_def env_ok_def)

text \<open>
  Claim C1. A speech-to-text submission with empty audio is to be refused with a
  validation error, with no job and no queue entry. The handler makes no check of the
  audio: with an empty file it uploads an empty object, puts the work item on the queue
  and answers with the task identifier and PENDING. (The text handler does refuse a text
  that is empty after stripping, see \<open>synthesize_text_rejects_blank\<close>.)
\<close>

theorem transcribe_audio_empty_accepted:
  "fst (transcribe_audio env_ok world_empty sample_id
          \<lparr>filename = Some ''speech.wav'', file_bytes = []\<rparr>)
     = Inr \<lparr>task_id = sample_id, status = PENDING\<rparr>
   \<and> queue (snd (transcribe_audio env_ok world_empty sample_id
                   \<lparr>filename = Some ''speech.wav'', file_bytes = []\<rparr>))
     = [\<lparr>msg_task_id = sample_id, msg_mode = V2T,
         msg_input = [(''input_object_name'', sample_id @ ''_speech.wav'')], msg_retries = 0\<rparr>]
   \<and> minio (snd (transcribe_audio env_ok world_empty sample_id
                   \<lparr>filename = Some ''speech.wav'', file_bytes = []\<rparr>))
         (MINIO_BUCKET_UNPROCESSED, sample_id @ ''_speech.wav'') = Some []"
  by (simp add: transcribe_audio_def put_object_def Let_def env_ok_def world_empty_def
        send_task_def input_object_name_of_def)

lemma synthesize_text_rejects_blank:
  "strip text = [] \<Longrightarrow>
   synthesize_text w tid text = (Inl (HTTPException 400 ''Text content is required''), w)"
  by (simp add: synthesize_text_def)

section \<open>Reading a result\<close>

text \<open>
  Claim C2, as the code has it. For a task identifier the result backend has no entry for,
  the lookup does not fail: it answers with the status PENDING and with neither a result
  nor an error message.
\<close>

theorem unknown_task_reported_pending:
  assumes "backend w tid = None"
  shows "get_task_result e w tid = Inr (task_result_response tid PENDING None None None)"
  using assms by (simp add: get_task_result_def AsyncResult_def ready_def Let_def)

theorem unknown_task_reported_pending_witness:
  "backend world_empty sample_id = None
   \<and> get_task_result env_ok world_empty sample_id =
       Inr (task_result_response sample_id PENDING None None None)"
  using unknown_task_reported_pending [of world_empty sample_id env_ok]
  by (simp add: world_empty_def)

text \<open>The claim C2 as it was stated (the lookup of an unknown identifier fails with a
  not-found error) is false: with empty stores the lookup of an identifier that was never
  handed out returns a response.\<close>

theorem unknown_task_not_found_counterexample:
  "backend world_empty ''no-such-task'' = None
   \<and> get_task_result env_ok world_empty ''no-such-task'' =
       Inr \<lparr>task_id = ''no-such-task'', status = PENDING, transcribed_text = None,
            audio_url = None, error_message = None\<rparr>"
  by (simp add: get_task_result_def AsyncResult_def ready_def Let_def world_empty_def
        task_result_response_def)

text \<open>
  Claim C9. In every response the lookup returns, a result (the transcribed text or the
  audio URL) is present only with the status SUCCESS, an error message only with the
  status FAILED, and the two are never present together.
\<close>

theorem result_and_error_exclusive:
  assumes "get_task_result e w tid = Inr r"
  shows "((transcribed_text r \<noteq> None \<or> audio_url r \<noteq> None) \<longrightarrow> status r = SUCCESS)
       \<and> (error_message r \<noteq> None \<longrightarrow> status r = FAILED)
       \<and> \<not> ((transcribed_text r \<noteq> None \<or> audio_url r \<noteq> None) \<and> error_message r \<noteq> None)"
  using assms
  by (auto simp: get_task_result_def Let_def task_result_response_def
           split: if_splits sum.splits)

lemma get_task_result_transcribed:
  "get_task_result env_ok world_transcribed sample_id =
     Inr (task_result_response sample_id SUCCESS (Some ''hello world'') None None)"
  by (simp add: get_task_result_def world_transcribed_def store_result_def world_empty_def
        AsyncResult_def ready_def failed_def successful_def has_key_def Let_def)

lemma get_task_result_revoked:
  "get_task_result env_ok world_revoked sample_id =
     Inr (task_result_response sample_id FAILED None None (Some ''Task was not successful''))"
  by (simp add: get_task_result_def world_revoked_def store_result_def world_empty_def
        AsyncResult_def ready_def failed_def successful_def Let_def)

theorem result_and_error_exclusive_witness:
  "get_task_result env_ok world_transcribed sample_id =
     Inr (task_result_response sample_id SUCCESS (Some ''hello world'') None None)
   \<and> transcribed_text (task_result_response sample_id SUCCESS (Some ''hello world'') None None)
       \<noteq> None
   \<and> status (task_result_response sample_id SUCCESS (Some ''hello world'') None None) = SUCCESS
   \<and> get_task_result env_ok world_revoked sample_id =
     Inr (task_result_response sample_id FAILED None None (Some ''Task was not successful''))
   \<and> error_message
        (task_result_response sample_id FAILED None None (Some ''Task was not successful''))
       \<noteq> None
   \<and> status (task_result_response sample_id FAILED None None (Some ''Task was not successful''))
       = FAILED"
  using result_and_error_exclusive [OF get_task_result_transcribed]
        result_and_error_exclusive [OF get_task_result_revoked]
        get_task_result_transcribed get_task_result_revoked
  by (simp add: task_result_response_def)

section \<open>Cleanup on expiry\<close>

lemma delete_file_stdout:
  "stdout (delete_file e w n) = stdout w @ [delete_line e n]"
  by (simp add: delete_file_def delete_line_def remove_object_def print_def Let_def
           split: option.splits)

lemma delete_file_redis:
  "redis_lists (delete_file e w n) = redis_lists w"
  "redis_strings (delete_file e w n) = redis_strings w"
  by (simp_all add: delete_file_def remove_object_def print_def Let_def split: option.splits)

lemma delete_files_stdout:
  "stdout (delete_files e w fs) = stdout w @ map (delete_line e) fs"
  by (induction fs arbitrary: w) (simp_all add: delete_file_stdout)

lemma delete_files_redis:
  "redis_lists (delete_files e w fs) = redis_lists w"
  "redis_strings (delete_files e w fs) = redis_strings w"
  by (induction fs arbitrary: w) (simp_all add: delete_file_redis)

lemma delete_files_keeps_absent:
  "minio w k = None \<Longrightarrow> minio (delete_files e w fs) k = None"
  by (induction fs arbitrary: w) (simp_all add: delete_file_minio split: option.splits)

lemma delete_files_removes:
  "n \<in> set fs \<Longrightarrow> remove_object_fault e (bucket_for n) n = None \<Longrightarrow>
   minio (delete_files e w fs) (bucket_for n, n) = None"
proof (induction fs arbitrary: w)
  case Nil
  then show ?case by simp
next
  case (Cons f fs)
  show ?case
  proof (cases "n = f")
    case True
    with Cons.prems have "minio (delete_file e w f) (bucket_for n, n) = None"
      by (simp add: delete_file_minio)
    then show ?thesis
      by (simp add: delete_files_keeps_absent)
  next
    case False
    with Cons.prems have "n \<in> set fs" by simp
    from Cons.IH [OF this Cons.prems(2)] show ?thesis by simp
  qed
qed

lemma after_first_cleanup: "after_first '':'' (''cleanup:'' @ tid) = Some tid"
  by (simp add: startswith_def)

lemma startswith_cleanup: "startswith (''cleanup:'' @ tid) ''cleanup:''"
  by (simp add: startswith_def)

lemma process_cleanup_task_run:
  assumes "redis_fault e LRANGE = None" and "redis_fault e DEL = None"
    and "redis_strings w (''files:'' @ tid) = None"
    and "redis_lists w (''files:'' @ tid) = Some files" and "files \<noteq> []"
  shows "process_cleanup_task e w tid =
           (Inr (), print ((delete_files e w files)
                      \<lparr>redis_lists := (redis_lists w)(''files:'' @ tid := None),
                        redis_strings := (redis_strings w)(''files:'' @ tid := None)\<rparr>)
                     (''Cleanup completed for task '' @ tid))"
  using assms
  by (simp add: process_cleanup_task_def lrange_all_def redis_delete_def Let_def
        delete_files_redis)

text \<open>
  Claim C7. When the trigger key \<open>cleanup:{task_id}\<close> expires and Redis holds the file
  list, the worker goes once through the whole list in order: for every object name it
  issues the delete and prints one line, \<open>Deleted\<close> or \<open>Error deleting\<close>, so that a
  failing delete stops nothing; every object whose delete did not fail is gone from its
  bucket afterwards (also when it was not there before); and after the loop the file list
  is removed from Redis.
\<close>

theorem cleanup_attempts_every_delete:
  assumes "redis_fault e LRANGE = None" and "redis_fault e DEL = None"
    and "redis_strings w (''files:'' @ tid) = None"
    and "redis_lists w (''files:'' @ tid) = Some files" and "files \<noteq> []"
  shows "fst (on_expired e w (''cleanup:'' @ tid)) = Inr ()
       \<and> stdout (snd (on_expired e w (''cleanup:'' @ tid))) =
           stdout w @ map (delete_line e) files @ [''Cleanup completed for task '' @ tid]
       \<and> (\<forall>n \<in> set files. remove_object_fault e (bucket_for n) n = None \<longrightarrow>
             minio (snd (on_expired e w (''cleanup:'' @ tid))) (bucket_for n, n) = None)
       \<and> redis_lists (snd (on_expired e w (''cleanup:'' @ tid))) (''files:'' @ tid) = None"
proof -
  have run: "on_expired e w (''cleanup:'' @ tid) =
           (Inr (), print ((delete_files e w files)
                      \<lparr>redis_lists := (redis_lists w)(''files:'' @ tid := None),
                        redis_strings := (redis_strings w)(''files:'' @ tid := None)\<rparr>)
                     (''Cleanup completed for task '' @ tid))"
    unfolding on_expired_def
    by (simp only: startswith_cleanup after_first_cleanup if_True option.case
          process_cleanup_task_run [OF assms])
  show ?thesis
    unfolding run
    by (simp add: print_def delete_files_stdout delete_files_removes)
qed


theorem cleanup_attempts_every_delete_witness:
  "redis_fault env_remove_flaky LRANGE = None \<and> redis_fault env_remove_flaky DEL = None
   \<and> redis_strings world_two_files (''files:'' @ ''t1'') = None
   \<and> redis_lists world_two_files (''files:'' @ ''t1'') = Some [''a.wav'', ''b.wav'']
   \<and> remove_object_fault env_remove_flaky (bucket_for ''a.wav'') ''a.wav'' = Some ''timeout''
   \<and> remove_object_fault env_remove_flaky (bucket_for ''b.wav'') ''b.wav'' = None
   \<and> stdout (snd (on_expired env_remove_flaky world_two_files (''cleanup:'' @ ''t1''))) =
       [''Error deleting a.wav: timeout'', ''Deleted b.wav from processed'',
        ''Cleanup completed for task t1'']
   \<and> minio (snd (on_expired env_remove_flaky world_two_files (''cleanup:'' @ ''t1'')))
         (bucket_for ''b.wav'', ''b.wav'') = None
   \<and> redis_lists (snd (on_expired env_remove_flaky world_two_files (''cleanup:'' @ ''t1'')))
         (''files:'' @ ''t1'') = None"
  using cleanup_attempts_every_delete
          [of env_remove_flaky world_two_files "''t1''" "[''a.wav'', ''b.wav'']"]
  by (simp add: env_remove_flaky_def env_ok_def world_two_files_def world_empty_def
        delete_line_def bucket_for_def startswith_def MINIO_BUCKET_PROCESSED_def)

section \<open>The dispatcher's pipeline\<close>

lemma modes_differ: "V2T \<noteq> T2V"
  by (simp add: V2T_def T2V_def)

lemma AsyncResult_queue [simp]: "AsyncResult (w\<lparr>queue := q\<rparr>) tid = AsyncResult w tid"
  by (simp add: AsyncResult_def)

lemma AsyncResult_backend:
  assumes "backend w' = backend w"
  shows "AsyncResult w' tid = AsyncResult w tid"
  by (simp add: AsyncResult_def assms)

lemma store_result_fields [simp]:
  "minio (store_result w tid st i) = minio w"
  "redis_lists (store_result w tid st i) = redis_lists w"
  "redis_strings (store_result w tid st i) = redis_strings w"
  "queue (store_result w tid st i) = queue w"
  "stdout (store_result w tid st i) = stdout w"
  by (simp_all add: store_result_def)

lemma store_result_stored:
  "state (AsyncResult w tid) = C_SUCCESS \<Longrightarrow> store_result w tid st i = w"
  by (simp add: store_result_def)

lemma AsyncResult_store_result:
  "AsyncResult (store_result w tid st i) tid =
     (if state (AsyncResult w tid) = C_SUCCESS then AsyncResult w tid
      else \<lparr>state = st, info = i\<rparr>)"
  by (simp add: store_result_def AsyncResult_def)

lemma backend_store_result:
  "backend (store_result w tid st i) tid =
     (if state (AsyncResult w tid) = C_SUCCESS then backend w tid
      else Some \<lparr>state = st, info = i\<rparr>)"
  by (simp add: store_result_def)

lemma store_result_queue [simp]:
  "store_result (w\<lparr>queue := q\<rparr>) tid st i = (store_result w tid st i)\<lparr>queue := q\<rparr>"
  by (simp add: store_result_def)

lemma store_result_twice [simp]:
  assumes "st1 \<noteq> C_SUCCESS"
  shows "store_result (store_result w tid st1 i1) tid st2 i2 = store_result w tid st2 i2"
proof (cases "state (AsyncResult w tid) = C_SUCCESS")
  case True
  then show ?thesis by (simp add: store_result_stored)
next
  case False
  with assms show ?thesis
    by (simp add: store_result_def AsyncResult_def)
qed

lemma ack_queue [simp]: "ack (w\<lparr>queue := q\<rparr>) = w\<lparr>queue := tl q\<rparr>"
  by (simp add: ack_def)

lemma schedule_cleanup_fields [simp]:
  "minio (schedule_cleanup e w tid inp r) = minio w"
  "backend (schedule_cleanup e w tid inp r) = backend w"
  "queue (schedule_cleanup e w tid inp r) = queue w"
  by (simp_all add: schedule_cleanup_def rpush_def setex_def warn_cleanup_def print_def Let_def
        split: option.splits sum.splits)

lemma pipeline_result_T2V:
  "pipeline_result e w tid T2V inp =
     (if \<not> has_key ''text'' inp then (Inl (ValueError ''text is required for T2V mode''), w)
      else case http_fault e tts_url of
        Some m \<Rightarrow> (Inl (TransportError m), w)
      | None \<Rightarrow>
         (case chatterbox_infer e (the (map_of inp ''text'')) of
            Inl m \<Rightarrow> (Inl (HTTPStatusError \<lparr>status_code = 503,
                        body = Json [(''detail'', ''Triton inference failed: '' @ m)]\<rparr>), w)
          | Inr raw_audio \<Rightarrow>
             (case put_object_fault e MINIO_BUCKET_PROCESSED (tid @ ''.wav'') of
                Some m \<Rightarrow> (Inl (HTTPStatusError \<lparr>status_code = 500,
                            body = Json [(''detail'', ''Failed to upload audio: '' @ m)]\<rparr>), w)
              | None \<Rightarrow> (Inr [(''output_object_name'', tid @ ''.wav'')],
                         w\<lparr>minio := (minio w)((MINIO_BUCKET_PROCESSED, tid @ ''.wav'')
                                                 \<mapsto> raw_audio)\<rparr>))))"
  using modes_differ
  by (simp add: pipeline_result_def post_tts_def synthesize_speech_def put_object_def
        raise_for_status_def json_item_def Let_def
        split: option.splits sum.splits)

lemma post_stt_snd: "snd (post_stt e w n) = w"
  by (simp add: post_stt_def split: option.splits)

lemma post_stt_fst: "minio w' = minio w \<Longrightarrow> fst (post_stt e w' n) = fst (post_stt e w n)"
  by (simp add: post_stt_def stt_transcribe_audio_def split: option.splits)

lemma pipeline_result_V2T:
  "pipeline_result e w tid V2T inp =
     (if \<not> has_key ''input_object_name'' inp
      then (Inl (ValueError ''input_object_name is required for V2T mode''), w)
      else (v2t_outcome (fst (post_stt e w (the (map_of inp ''input_object_name'')))), w))"
proof -
  obtain p w1 where p: "post_stt e w (the (map_of inp ''input_object_name'')) = (p, w1)"
    by (cases "post_stt e w (the (map_of inp ''input_object_name''))")
  with post_stt_snd [of e w "the (map_of inp ''input_object_name'')"] have "w1 = w" by simp
  with p show ?thesis
    by (simp add: pipeline_result_def v2t_outcome_def split: sum.splits)
qed

lemma pipeline_result_other:
  "mode \<noteq> V2T \<Longrightarrow> mode \<noteq> T2V \<Longrightarrow>
   pipeline_result e w tid mode inp = (Inl (ValueError (''Unsupported mode: '' @ mode)), w)"
  by (simp add: pipeline_result_def)

lemma pipeline_result_failure_world:
  assumes "fst (pipeline_result e w tid mode inp) = Inl x"
  shows "snd (pipeline_result e w tid mode inp) = w"
proof -
  consider "mode = V2T" | "mode = T2V" | "mode \<noteq> V2T" "mode \<noteq> T2V" by blast
  then show ?thesis
  proof cases
    case 1
    then show ?thesis by (simp add: pipeline_result_V2T)
  next
    case 2
    with assms show ?thesis
      by (simp add: pipeline_result_T2V split: if_splits option.splits sum.splits)
  next
    case 3
    then show ?thesis by (simp add: pipeline_result_other)
  qed
qed

lemma pipeline_result_fst_minio:
  assumes "minio w' = minio w"
  shows "fst (pipeline_result e w' tid mode inp) = fst (pipeline_result e w tid mode inp)"
proof -
  consider "mode = V2T" | "mode = T2V" | "mode \<noteq> V2T" "mode \<noteq> T2V" by blast
  then show ?thesis
  proof cases
    case 1
    then show ?thesis
      by (simp add: pipeline_result_V2T post_stt_fst [OF assms])
  next
    case 2
    then show ?thesis
      by (simp add: pipeline_result_T2V split: option.splits sum.splits)
  next
    case 3
    then show ?thesis by (simp add: pipeline_result_other)
  qed
qed


lemma retriable_failure_retries [simp]:
  "retriable_failure e w (request\<lparr>msg_retries := k\<rparr>) = retriable_failure e w request"
  by (simp add: retriable_failure_def)

lemma startswith_append [simp]: "startswith (p @ s) p"
  by (simp add: startswith_def)




section \<open>Retries\<close>










lemma invocation_fails_retries [simp]:
  "invocation_fails e w (request\<lparr>msg_retries := k\<rparr>) = invocation_fails e w request"
  by (simp add: invocation_fails_def)


lemma undecodable_failure_retries [simp]:
  "undecodable_failure e w (request\<lparr>msg_retries := k\<rparr>) = undecodable_failure e w request"
  by (simp add: undecodable_failure_def)











lemma t2v_queued_pending: "state (AsyncResult world_t2v_queued ''job-1'') = C_PENDING"
  by (simp add: world_t2v_queued_def send_task_def world_empty_def AsyncResult_def)






section \<open>Success and the cleanup record\<close>

lemma process_pipeline_failure:
  assumes "pipeline_result e w (msg_task_id request) mode inp = (Inl x, w1)"
  shows "\<exists>y w2. (process_pipeline e w request mode inp = (Retry y, w2)
               \<or> process_pipeline e w request mode inp = (Raise y, w2))
              \<and> backend w2 = backend w1 \<and> minio w2 = minio w1"
proof -
  have r: "\<exists>w2. (retry w1 request y = (Retry y, w2) \<or> retry w1 request y = (Raise y, w2))
              \<and> backend w2 = backend w1 \<and> minio w2 = minio w1" for y
    by (simp add: retry_def Let_def)
  show ?thesis
  proof (cases "\<exists>r. x = HTTPStatusError r")
    case True
    then obtain r where x: "x = HTTPStatusError r" by blast
    show ?thesis
    proof (cases "error_details e r")
      case (Inl z)
      with assms x have "process_pipeline e w request mode inp = (Raise z, w1)"
        by (simp add: process_pipeline_def Let_def)
      then show ?thesis by blast
    next
      case (Inr d)
      with assms x have "process_pipeline e w request mode inp =
                           retry w1 request (Exception (''HTTP Error: '' @ d))"
        by (simp add: process_pipeline_def Let_def)
      with r [of "Exception (''HTTP Error: '' @ d)"] show ?thesis by metis
    qed
  next
    case False
    with assms have "process_pipeline e w request mode inp = retry w1 request x"
      by (cases x) (simp_all add: process_pipeline_def Let_def)
    with r [of x] show ?thesis by metis
  qed
qed

lemma process_pipeline_success:
  assumes "pipeline_result e w (msg_task_id request) mode inp = (Inr r, w1)"
  shows "process_pipeline e w request mode inp =
           (Return r, schedule_cleanup e w1 (msg_task_id request) inp r)"
  using assms by (simp add: process_pipeline_def Let_def)

lemma process_pipeline_Return:
  assumes "fst (process_pipeline e w request mode inp) = Return r"
  obtains w1 where "pipeline_result e w (msg_task_id request) mode inp = (Inr r, w1)"
    and "snd (process_pipeline e w request mode inp) =
           schedule_cleanup e w1 (msg_task_id request) inp r"
proof -
  obtain p w1 where p: "pipeline_result e w (msg_task_id request) mode inp = (p, w1)"
    by (cases "pipeline_result e w (msg_task_id request) mode inp")
  show thesis
  proof (cases p)
    case (Inl x)
    with p process_pipeline_failure [of e w request mode inp x w1] assms
    show ?thesis by auto
  next
    case (Inr r')
    with p process_pipeline_success [of e w request mode inp r' w1] assms that
    show ?thesis by simp
  qed
qed

lemma pipeline_result_success_stores:
  assumes "pipeline_result e w tid mode inp = (Inr r, w1)"
  shows "files_to_delete inp r \<noteq> [] \<and> redis_lists w1 = redis_lists w
       \<and> redis_strings w1 = redis_strings w \<and> backend w1 = backend w \<and> stdout w1 = stdout w
       \<and> queue w1 = queue w"
proof -
  consider "mode = V2T" | "mode = T2V" | "mode \<noteq> V2T" "mode \<noteq> T2V" by blast
  then show ?thesis
  proof cases
    case 1
    with assms show ?thesis
      by (auto simp: pipeline_result_V2T files_to_delete_def split: if_splits)
  next
    case 2
    with assms show ?thesis
      by (auto simp: pipeline_result_T2V files_to_delete_def has_key_def
               split: if_splits option.splits sum.splits)
  next
    case 3
    with assms show ?thesis by (simp add: pipeline_result_other)
  qed
qed

lemma process_pipeline_backend:
  "backend (snd (process_pipeline e w request mode inp)) = backend w"
proof -
  obtain p w1 where p: "pipeline_result e w (msg_task_id request) mode inp = (p, w1)"
    by (cases "pipeline_result e w (msg_task_id request) mode inp")
  show ?thesis
  proof (cases p)
    case (Inl x)
    with p have pr: "pipeline_result e w (msg_task_id request) mode inp = (Inl x, w1)" by simp
    then have "fst (pipeline_result e w (msg_task_id request) mode inp) = Inl x" by simp
    from pipeline_result_failure_world [OF this] pr have "w1 = w" by simp
    with process_pipeline_failure [OF pr] show ?thesis by auto
  next
    case (Inr r)
    with p have pr: "pipeline_result e w (msg_task_id request) mode inp = (Inr r, w1)" by simp
    have "backend w1 = backend w"
      using pipeline_result_success_stores [OF pr] by simp
    then show ?thesis
      by (simp add: process_pipeline_success [OF pr])
  qed
qed

lemma deliver_success:
  assumes "pipeline_result e (store_result w (msg_task_id request) C_STARTED NoInfo)
             (msg_task_id request) (msg_mode request) (msg_input request) = (Inr r, w1)"
  shows "deliver e w request =
           store_result (schedule_cleanup e w1 (msg_task_id request) (msg_input request) r)
             (msg_task_id request) C_SUCCESS (Returned r)"
  unfolding deliver_def Let_def process_pipeline_success [OF assms] by simp

lemma deliver_keeps_success:
  assumes "state (AsyncResult w (msg_task_id request)) = C_SUCCESS"
  shows "backend (deliver e w request) = backend w"
proof -
  let ?tid = "msg_task_id request"
  have w0: "store_result w ?tid C_STARTED NoInfo = w"
    using assms by (rule store_result_stored)
  obtain out w2 where
    pp: "process_pipeline e w request (msg_mode request) (msg_input request) = (out, w2)"
    by (cases "process_pipeline e w request (msg_mode request) (msg_input request)")
  from process_pipeline_backend [of e w request "msg_mode request" "msg_input request"] pp
  have b: "backend w2 = backend w" by simp
  from AsyncResult_backend [OF b, of ?tid] assms
  have "state (AsyncResult w2 ?tid) = C_SUCCESS" by simp
  then have "store_result w2 ?tid st i = w2" for st i
    by (rule store_result_stored)
  then have "deliver e w request = w2"
    unfolding deliver_def Let_def w0 pp by (cases out) simp_all
  with b show ?thesis by simp
qed

lemma files_key_not_trigger: "''files:'' @ tid \<noteq> ''cleanup:'' @ tid'"
  by simp

lemma schedule_cleanup_records:
  assumes "files_to_delete inp r \<noteq> []"
    and "redis_fault e RPUSH = None" and "redis_fault e SETEX = None"
    and "redis_strings w (''files:'' @ tid) = None"
  shows "redis_lists (schedule_cleanup e w tid inp r) (''files:'' @ tid) =
           Some ((case redis_lists w (''files:'' @ tid) of None \<Rightarrow> [] | Some l \<Rightarrow> l)
                 @ files_to_delete inp r)
       \<and> redis_strings (schedule_cleanup e w tid inp r) (''cleanup:'' @ tid) =
           Some (''1'', CLEANUP_TTL_SECONDS)"
  using assms
  by (simp add: schedule_cleanup_def files_to_delete_def rpush_def setex_def Let_def)

text \<open>
  Claim C3, as the code has it. For every delivery whose processing succeeds, that is
  whose task returns a result, and when Redis accepts the two writes: by the time the task
  returns it has recorded the cleanup record. The list \<open>files:{task_id}\<close> has received the
  artifacts named by the input and by the result, which are never none for a success, and
  the trigger key \<open>cleanup:{task_id}\<close> is set with the configured time to live. The task
  itself stores no state: the result backend is as the start of the task left it, and the
  terminal state is stored only afterwards, from the stores that already hold the record.
  So for a job not yet held as succeeded, the entry still says STARTED when the record is
  there, and says SUCCESS with the result after the delivery. (Nothing is written when no
  artifact is named, see \<open>schedule_cleanup_without_files\<close>.)
\<close>

theorem cleanup_recorded_before_success:
  assumes "fst (process_pipeline e (store_result w (msg_task_id request) C_STARTED NoInfo)
                  request (msg_mode request) (msg_input request)) = Return r"
    and "redis_fault e RPUSH = None" and "redis_fault e SETEX = None"
    and "redis_strings w (''files:'' @ msg_task_id request) = None"
  shows "files_to_delete (msg_input request) r \<noteq> []
       \<and> redis_lists
           (snd (process_pipeline e (store_result w (msg_task_id request) C_STARTED NoInfo)
                   request (msg_mode request) (msg_input request)))
           (''files:'' @ msg_task_id request) =
             Some ((case redis_lists w (''files:'' @ msg_task_id request) of
                      None \<Rightarrow> [] | Some l \<Rightarrow> l)
                   @ files_to_delete (msg_input request) r)
       \<and> redis_strings
           (snd (process_pipeline e (store_result w (msg_task_id request) C_STARTED NoInfo)
                   request (msg_mode request) (msg_input request)))
           (''cleanup:'' @ msg_task_id request) = Some (''1'', CLEANUP_TTL_SECONDS)
       \<and> backend
           (snd (process_pipeline e (store_result w (msg_task_id request) C_STARTED NoInfo)
                   request (msg_mode request) (msg_input request)))
           = backend (store_result w (msg_task_id request) C_STARTED NoInfo)
       \<and> deliver e w request =
           store_result
             (snd (process_pipeline e (store_result w (msg_task_id request) C_STARTED NoInfo)
                     request (msg_mode request) (msg_input request)))
             (msg_task_id request) C_SUCCESS (Returned r)
       \<and> (state (AsyncResult w (msg_task_id request)) \<noteq> C_SUCCESS \<longrightarrow>
            state (AsyncResult
              (snd (process_pipeline e (store_result w (msg_task_id request) C_STARTED NoInfo)
                      request (msg_mode request) (msg_input request)))
              (msg_task_id request)) = C_STARTED
          \<and> backend (deliver e w request) (msg_task_id request) =
              Some \<lparr>state = C_SUCCESS, info = Returned r\<rparr>)"
proof -
  let ?tid = "msg_task_id request"
  let ?w0 = "store_result w ?tid C_STARTED NoInfo"
  let ?pp = "process_pipeline e ?w0 request (msg_mode request) (msg_input request)"
  from assms(1) obtain w' where
    pr: "pipeline_result e ?w0 ?tid (msg_mode request) (msg_input request) = (Inr r, w')"
    and sp: "snd ?pp = schedule_cleanup e w' ?tid (msg_input request) r"
    by (rule process_pipeline_Return)
  from pipeline_result_success_stores [OF pr]
  have files: "files_to_delete (msg_input request) r \<noteq> []"
    and rl: "redis_lists w' = redis_lists w" and rs: "redis_strings w' = redis_strings w"
    by simp_all
  have rs': "redis_strings w' (''files:'' @ ?tid) = None"
    using assms(4) rs by simp
  from schedule_cleanup_records [OF files assms(2,3) rs']
  have rec: "redis_lists (snd ?pp) (''files:'' @ ?tid) =
           Some ((case redis_lists w (''files:'' @ ?tid) of None \<Rightarrow> [] | Some l \<Rightarrow> l)
                 @ files_to_delete (msg_input request) r)"
    and trig: "redis_strings (snd ?pp) (''cleanup:'' @ ?tid) = Some (''1'', CLEANUP_TTL_SECONDS)"
    by (simp_all add: rl sp)
  have bk: "backend (snd ?pp) = backend ?w0"
    by (rule process_pipeline_backend)
  have d: "deliver e w request = store_result (snd ?pp) ?tid C_SUCCESS (Returned r)"
    by (simp add: deliver_success [OF pr] sp)
  have fresh: "state (AsyncResult (snd ?pp) ?tid) = C_STARTED
          \<and> backend (deliver e w request) ?tid = Some \<lparr>state = C_SUCCESS, info = Returned r\<rparr>"
    if f: "state (AsyncResult w ?tid) \<noteq> C_SUCCESS"
  proof -
    have "AsyncResult (snd ?pp) ?tid = AsyncResult ?w0 ?tid"
      by (rule AsyncResult_backend [OF bk])
    with f have st: "state (AsyncResult (snd ?pp) ?tid) = C_STARTED"
      by (simp add: AsyncResult_store_result)
    then have "backend (deliver e w request) ?tid = Some \<lparr>state = C_SUCCESS, info = Returned r\<rparr>"
      by (simp add: d backend_store_result)
    with st show ?thesis by simp
  qed
  from files rec trig bk d fresh show ?thesis by blast
qed

lemma schedule_cleanup_without_files:
  "files_to_delete inp r = [] \<Longrightarrow> schedule_cleanup e w tid inp r = w"
  by (simp add: schedule_cleanup_def files_to_delete_def Let_def split: if_splits)

lemma t2v_ok_returns:
  "fst (process_pipeline env_ok (store_result world_t2v_queued (msg_task_id job_t2v) C_STARTED NoInfo)
          job_t2v (msg_mode job_t2v) (msg_input job_t2v))
     = Return [(''output_object_name'', ''job-1.wav'')]"
  by code_simp

lemma t2v_queued_fresh:
  "state (AsyncResult world_t2v_queued (msg_task_id job_t2v)) \<noteq> C_SUCCESS"
  using t2v_queued_pending by (simp add: job_t2v_def)

theorem cleanup_recorded_before_success_witness:
  "fst (process_pipeline env_ok (store_result world_t2v_queued (msg_task_id job_t2v) C_STARTED NoInfo)
          job_t2v (msg_mode job_t2v) (msg_input job_t2v))
     = Return [(''output_object_name'', ''job-1.wav'')]
   \<and> redis_fault env_ok RPUSH = None \<and> redis_fault env_ok SETEX = None
   \<and> redis_strings world_t2v_queued (''files:'' @ msg_task_id job_t2v) = None
   \<and> state (AsyncResult world_t2v_queued (msg_task_id job_t2v)) = C_PENDING
   \<and> redis_strings
       (snd (process_pipeline env_ok
               (store_result world_t2v_queued (msg_task_id job_t2v) C_STARTED NoInfo)
               job_t2v (msg_mode job_t2v) (msg_input job_t2v)))
       (''cleanup:'' @ msg_task_id job_t2v) = Some (''1'', CLEANUP_TTL_SECONDS)
   \<and> state (AsyncResult
       (snd (process_pipeline env_ok
               (store_result world_t2v_queued (msg_task_id job_t2v) C_STARTED NoInfo)
               job_t2v (msg_mode job_t2v) (msg_input job_t2v)))
       (msg_task_id job_t2v)) = C_STARTED
   \<and> backend (deliver env_ok world_t2v_queued job_t2v) (msg_task_id job_t2v) =
       Some \<lparr>state = C_SUCCESS, info = Returned [(''output_object_name'', ''job-1.wav'')]\<rparr>"
proof -
  have h2: "redis_fault env_ok RPUSH = None" and h3: "redis_fault env_ok SETEX = None"
    by (simp_all add: env_ok_def)
  have h4: "redis_strings world_t2v_queued (''files:'' @ msg_task_id job_t2v) = None"
    by (simp add: world_t2v_queued_def send_task_def world_empty_def)
  have h5: "state (AsyncResult world_t2v_queued (msg_task_id job_t2v)) = C_PENDING"
    using t2v_queued_pending by (simp add: job_t2v_def)
  from cleanup_recorded_before_success [OF t2v_ok_returns h2 h3 h4] t2v_queued_fresh
    t2v_ok_returns h2 h3 h4 h5
  show ?thesis by blast
qed

text \<open>The claim C3 as it was stated (a cleanup record after every job, failed ones and ones
  without files too, made after the terminal state is written) is false: a text-to-speech
  job whose inference fails on all four attempts ends in FAILURE with neither a file list
  nor a trigger key in Redis; and when the job succeeds, the trigger key is set by the
  time the task returns, while the result backend still holds the state STARTED.\<close>

theorem failed_job_without_cleanup_counterexample:
  "state (AsyncResult
     (worker [env_tts_down, env_tts_down, env_tts_down, env_tts_down] world_t2v_queued)
     ''job-1'') = C_FAILURE
   \<and> redis_lists
       (worker [env_tts_down, env_tts_down, env_tts_down, env_tts_down] world_t2v_queued)
       ''files:job-1'' = None
   \<and> redis_strings
       (worker [env_tts_down, env_tts_down, env_tts_down, env_tts_down] world_t2v_queued)
       ''cleanup:job-1'' = None
   \<and> redis_strings
       (snd (process_pipeline env_ok (store_result world_t2v_queued ''job-1'' C_STARTED NoInfo)
               job_t2v T2V [(''text'', ''hello'')]))
       ''cleanup:job-1'' = Some (''1'', 3600)
   \<and> state (AsyncResult
       (snd (process_pipeline env_ok (store_result world_t2v_queued ''job-1'' C_STARTED NoInfo)
               job_t2v T2V [(''text'', ''hello'')]))
       ''job-1'') = C_STARTED"
  by code_simp

section \<open>Redelivery\<close>

lemma pipeline_result_T2V_fst:
  "fst (pipeline_result e w' tid T2V inp) = fst (pipeline_result e w tid T2V inp)"
  by (simp add: pipeline_result_T2V split: option.splits sum.splits)

lemma pipeline_result_T2V_success:
  assumes "pipeline_result e w tid T2V inp = (Inr r, w1)"
  shows "r = [(''output_object_name'', tid @ ''.wav'')]
       \<and> (\<exists>a. minio w1 = (minio w)((MINIO_BUCKET_PROCESSED, tid @ ''.wav'') \<mapsto> a)
              \<and> (\<forall>w'. \<exists>w1'. pipeline_result e w' tid T2V inp = (Inr r, w1')
                     \<and> minio w1' = (minio w')((MINIO_BUCKET_PROCESSED, tid @ ''.wav'') \<mapsto> a)))"
  using assms
  by (auto simp: pipeline_result_T2V split: if_splits option.splits sum.splits)

lemma minio_deliver:
  "minio (deliver e w request) =
     minio (snd (process_pipeline e (store_result w (msg_task_id request) C_STARTED NoInfo)
                   request (msg_mode request) (msg_input request)))"
proof -
  obtain out w2 where
    pp: "process_pipeline e (store_result w (msg_task_id request) C_STARTED NoInfo)
           request (msg_mode request) (msg_input request) = (out, w2)"
    by (cases "process_pipeline e (store_result w (msg_task_id request) C_STARTED NoInfo)
           request (msg_mode request) (msg_input request)")
  show ?thesis
    unfolding deliver_def Let_def pp by (cases out) simp_all
qed

lemma task_meta_success:
  assumes "state m = C_SUCCESS" and "info m = Returned r"
  shows "m = \<lparr>state = C_SUCCESS, info = Returned r\<rparr>"
  using assms by (cases m) simp

text \<open>
  Claim C6. Let the processing of a work item from the stores \<open>w\<close>, which do not hold the
  task as succeeded, return the result \<open>r\<close>: the single delivery stores SUCCESS with \<open>r\<close>. A
  delivery of the same item that crashed before its acknowledgement leaves stores \<open>w'\<close> in
  which Redis, the queue and the output may be anything; the object store is as in \<open>w\<close>
  except, for a text-to-speech job, for the object \<open>{task_id}.wav\<close> in the processed bucket;
  and the entry of the task in the result backend is anything but a success, or the
  success with \<open>r\<close> that the crashed delivery stored. The redelivery from \<open>w'\<close> then leaves
  the same terminal state under the task identifier as the single delivery from \<open>w\<close>, and
  the same objects in the object store: nothing accumulates. Where \<open>w'\<close> already holds the
  success, this is so whatever the backends do at the redelivery (the collaborators \<open>e2\<close>),
  since a stored success is never replaced. For a text-to-speech job the result names the
  object \<open>{task_id}.wav\<close>, a function of the task identifier alone: the delivery adds
  exactly this one name to the object store, and a redelivery that succeeds with any
  backends returns the same result and ends with the same names in the object store, so
  that a repeated run overwrites.
\<close>

theorem redelivery_same_terminal_state:
  assumes "fst (process_pipeline e (store_result w (msg_task_id request) C_STARTED NoInfo)
                  request (msg_mode request) (msg_input request)) = Return r"
    and "state (AsyncResult w (msg_task_id request)) \<noteq> C_SUCCESS"
    and "minio w' = minio w
         \<or> (msg_mode request = T2V
            \<and> (\<exists>a. minio w' =
                  (minio w)((MINIO_BUCKET_PROCESSED, msg_task_id request @ ''.wav'') \<mapsto> a)))"
    and "state (AsyncResult w' (msg_task_id request)) = C_SUCCESS \<longrightarrow>
           info (AsyncResult w' (msg_task_id request)) = Returned r"
  shows "backend (deliver e w request) (msg_task_id request)
           = Some \<lparr>state = C_SUCCESS, info = Returned r\<rparr>
       \<and> backend (deliver e w' request) (msg_task_id request)
           = Some \<lparr>state = C_SUCCESS, info = Returned r\<rparr>
       \<and> (state (AsyncResult w' (msg_task_id request)) = C_SUCCESS \<longrightarrow>
            backend (deliver e2 w' request) (msg_task_id request)
              = Some \<lparr>state = C_SUCCESS, info = Returned r\<rparr>)
       \<and> minio (deliver e w' request) = minio (deliver e w request)
       \<and> (msg_mode request = T2V \<longrightarrow>
            r = [(''output_object_name'', msg_task_id request @ ''.wav'')]
          \<and> dom (minio (deliver e w request))
              = insert (MINIO_BUCKET_PROCESSED, msg_task_id request @ ''.wav'') (dom (minio w))
          \<and> (\<forall>r2. fst (process_pipeline e2
                          (store_result w' (msg_task_id request) C_STARTED NoInfo)
                          request (msg_mode request) (msg_input request)) = Return r2 \<longrightarrow>
                  r2 = r
                \<and> dom (minio (deliver e2 w' request)) = dom (minio (deliver e w request))))"
proof -
  let ?tid = "msg_task_id request"
  let ?mode = "msg_mode request"
  let ?inp = "msg_input request"
  let ?w0 = "store_result w ?tid C_STARTED NoInfo"
  let ?w0' = "store_result w' ?tid C_STARTED NoInfo"
  let ?out = "(MINIO_BUCKET_PROCESSED, ?tid @ ''.wav'')"
  let ?done = "Some \<lparr>state = C_SUCCESS, info = Returned r\<rparr>"
  from assms(1) obtain w1 where
    pr: "pipeline_result e ?w0 ?tid ?mode ?inp = (Inr r, w1)"
    and sp: "snd (process_pipeline e ?w0 request ?mode ?inp) = schedule_cleanup e w1 ?tid ?inp r"
    by (rule process_pipeline_Return)
  have m0: "minio ?w0' = minio w'" "minio ?w0 = minio w" by simp_all
  \<comment> \<open>the single delivery\<close>
  have d: "deliver e w request =
             store_result (schedule_cleanup e w1 ?tid ?inp r) ?tid C_SUCCESS (Returned r)"
    by (rule deliver_success [OF pr])
  have b1: "backend w1 = backend ?w0"
    using pipeline_result_success_stores [OF pr] by simp
  have "AsyncResult (schedule_cleanup e w1 ?tid ?inp r) ?tid = AsyncResult ?w0 ?tid"
    by (rule AsyncResult_backend) (simp add: b1)
  with assms(2) have "state (AsyncResult (schedule_cleanup e w1 ?tid ?inp r) ?tid) \<noteq> C_SUCCESS"
    by (simp add: AsyncResult_store_result)
  then have 1: "backend (deliver e w request) ?tid = ?done"
    by (simp add: d backend_store_result)
  have md: "minio (deliver e w request) = minio w1"
    by (simp add: d)
  \<comment> \<open>a redelivery onto a stored success\<close>
  have kept: "backend (deliver e3 w' request) ?tid = ?done"
    if s: "state (AsyncResult w' ?tid) = C_SUCCESS" for e3
  proof -
    from s assms(4) have i: "info (AsyncResult w' ?tid) = Returned r" by simp
    from s obtain m where m: "backend w' ?tid = Some m"
      by (cases "backend w' ?tid") (simp_all add: AsyncResult_def)
    then have "AsyncResult w' ?tid = m" by (simp add: AsyncResult_def)
    with s i have "m = \<lparr>state = C_SUCCESS, info = Returned r\<rparr>"
      by (simp add: task_meta_success)
    with m deliver_keeps_success [OF s, of e3] show ?thesis by simp
  qed
  \<comment> \<open>the processing at the redelivery, with the same collaborators\<close>
  have same: "\<exists>w1'. pipeline_result e ?w0' ?tid ?mode ?inp = (Inr r, w1')
                  \<and> minio w1' = minio w1"
  proof (cases "?mode = T2V")
    case True
    from pr True have prT: "pipeline_result e ?w0 ?tid T2V ?inp = (Inr r, w1)" by simp
    from pipeline_result_T2V_success [OF prT] obtain a where
      a: "minio w1 = (minio ?w0)(?out \<mapsto> a)"
      and all: "\<forall>w'. \<exists>w1'. pipeline_result e w' ?tid T2V ?inp = (Inr r, w1')
                     \<and> minio w1' = (minio w')(?out \<mapsto> a)"
      by blast
    from all obtain w1' where
      p': "pipeline_result e ?w0' ?tid T2V ?inp = (Inr r, w1')"
      and a': "minio w1' = (minio ?w0')(?out \<mapsto> a)"
      by blast
    have "(minio w')(?out \<mapsto> a) = (minio w)(?out \<mapsto> a)"
      using assms(3) by auto
    with a a' have "minio w1' = minio w1" by simp
    with p' True show ?thesis by auto
  next
    case False
    with assms(3) have mw: "minio w' = minio w" by blast
    then have "minio ?w0' = minio ?w0" by simp
    from pipeline_result_fst_minio [OF this, of e ?tid ?mode ?inp] pr
    have f: "fst (pipeline_result e ?w0' ?tid ?mode ?inp) = Inr r" by simp
    have v: "?mode = V2T"
    proof (rule ccontr)
      assume "?mode \<noteq> V2T"
      with False pr show False by (simp add: pipeline_result_other)
    qed
    have s: "snd (pipeline_result e ?w0' ?tid ?mode ?inp) = ?w0'"
      and s0: "w1 = ?w0"
      using pr by (simp_all add: v pipeline_result_V2T split: if_splits)
    from f s have "pipeline_result e ?w0' ?tid ?mode ?inp = (Inr r, ?w0')"
      by (simp add: prod_eq_iff)
    with s0 mw show ?thesis by auto
  qed
  then obtain w1' where
    pr': "pipeline_result e ?w0' ?tid ?mode ?inp = (Inr r, w1')"
    and mm: "minio w1' = minio w1"
    by blast
  have d': "deliver e w' request =
              store_result (schedule_cleanup e w1' ?tid ?inp r) ?tid C_SUCCESS (Returned r)"
    by (rule deliver_success [OF pr'])
  have 4: "minio (deliver e w' request) = minio (deliver e w request)"
    by (simp add: d d' mm)
  have 2: "backend (deliver e w' request) ?tid = ?done"
  proof (cases "state (AsyncResult w' ?tid) = C_SUCCESS")
    case True
    then show ?thesis by (rule kept)
  next
    case False
    have b1': "backend w1' = backend ?w0'"
      using pipeline_result_success_stores [OF pr'] by simp
    have "AsyncResult (schedule_cleanup e w1' ?tid ?inp r) ?tid = AsyncResult ?w0' ?tid"
      by (rule AsyncResult_backend) (simp add: b1')
    with False have "state (AsyncResult (schedule_cleanup e w1' ?tid ?inp r) ?tid) \<noteq> C_SUCCESS"
      by (simp add: AsyncResult_store_result)
    then show ?thesis
      by (simp add: d' backend_store_result)
  qed
  have 3: "state (AsyncResult w' ?tid) = C_SUCCESS \<longrightarrow> backend (deliver e2 w' request) ?tid = ?done"
    using kept by blast
  have 5: "r = [(''output_object_name'', ?tid @ ''.wav'')]
          \<and> dom (minio (deliver e w request)) = insert ?out (dom (minio w))
          \<and> (\<forall>r2. fst (process_pipeline e2 ?w0' request ?mode ?inp) = Return r2 \<longrightarrow>
                  r2 = r
                \<and> dom (minio (deliver e2 w' request)) = dom (minio (deliver e w request)))"
    if t: "?mode = T2V"
  proof -
    from pr t have prT: "pipeline_result e ?w0 ?tid T2V ?inp = (Inr r, w1)" by simp
    from pipeline_result_T2V_success [OF prT] obtain a where
      r: "r = [(''output_object_name'', ?tid @ ''.wav'')]"
      and a: "minio w1 = (minio ?w0)(?out \<mapsto> a)"
      by blast
    have dm: "dom (minio (deliver e w request)) = insert ?out (dom (minio w))"
      by (simp add: md a)
    have dw': "insert ?out (dom (minio w')) = insert ?out (dom (minio w))"
      using assms(3) by auto
    have "r2 = r \<and> dom (minio (deliver e2 w' request)) = dom (minio (deliver e w request))"
      if h: "fst (process_pipeline e2 ?w0' request ?mode ?inp) = Return r2" for r2
    proof -
      from h obtain w2 where
        p2: "pipeline_result e2 ?w0' ?tid ?mode ?inp = (Inr r2, w2)"
        and s2: "snd (process_pipeline e2 ?w0' request ?mode ?inp)
                   = schedule_cleanup e2 w2 ?tid ?inp r2"
        by (rule process_pipeline_Return)
      from p2 t have p2T: "pipeline_result e2 ?w0' ?tid T2V ?inp = (Inr r2, w2)" by simp
      from pipeline_result_T2V_success [OF p2T] obtain a2 where
        r2: "r2 = [(''output_object_name'', ?tid @ ''.wav'')]"
        and a2: "minio w2 = (minio ?w0')(?out \<mapsto> a2)"
        by blast
      have "minio (deliver e2 w' request) = minio w2"
        by (simp add: minio_deliver s2)
      then have "dom (minio (deliver e2 w' request)) = insert ?out (dom (minio w'))"
        by (simp add: a2)
      with dw' dm r r2 show ?thesis by simp
    qed
    with r dm show ?thesis by blast
  qed
  from 1 2 3 4 5 show ?thesis by blast
qed

lemma deliver_minio_T2V:
  assumes "fst (process_pipeline e (store_result w (msg_task_id request) C_STARTED NoInfo)
                  request (msg_mode request) (msg_input request)) = Return r"
    and "msg_mode request = T2V"
  shows "\<exists>a. minio (deliver e w request) =
           (minio w)((MINIO_BUCKET_PROCESSED, msg_task_id request @ ''.wav'') \<mapsto> a)"
proof -
  let ?tid = "msg_task_id request"
  let ?w0 = "store_result w ?tid C_STARTED NoInfo"
  from assms(1) obtain w1 where
    pr: "pipeline_result e ?w0 ?tid (msg_mode request) (msg_input request) = (Inr r, w1)"
    and sp: "snd (process_pipeline e ?w0 request (msg_mode request) (msg_input request))
               = schedule_cleanup e w1 ?tid (msg_input request) r"
    by (rule process_pipeline_Return)
  from pr assms(2) have "pipeline_result e ?w0 ?tid T2V (msg_input request) = (Inr r, w1)"
    by simp
  from pipeline_result_T2V_success [OF this] obtain a where
    "minio w1 = (minio ?w0)((MINIO_BUCKET_PROCESSED, ?tid @ ''.wav'') \<mapsto> a)"
    by blast
  then have "minio (deliver e w request) =
           (minio w)((MINIO_BUCKET_PROCESSED, ?tid @ ''.wav'') \<mapsto> a)"
    by (simp add: minio_deliver sp)
  then show ?thesis by blast
qed

lemma t2v_delivered:
  "AsyncResult (deliver env_ok world_t2v_queued job_t2v) (msg_task_id job_t2v) =
     \<lparr>state = C_SUCCESS, info = Returned [(''output_object_name'', ''job-1.wav'')]\<rparr>"
  by code_simp

lemma t2v_other_returns:
  "fst (process_pipeline env_other_voice
          (store_result (deliver env_ok world_t2v_queued job_t2v) (msg_task_id job_t2v)
             C_STARTED NoInfo)
          job_t2v (msg_mode job_t2v) (msg_input job_t2v))
     = Return [(''output_object_name'', ''job-1.wav'')]"
  by code_simp

theorem redelivery_same_terminal_state_witness:
  "fst (process_pipeline env_ok (store_result world_t2v_queued (msg_task_id job_t2v) C_STARTED NoInfo)
          job_t2v (msg_mode job_t2v) (msg_input job_t2v))
     = Return [(''output_object_name'', ''job-1.wav'')]
   \<and> state (AsyncResult world_t2v_queued (msg_task_id job_t2v)) = C_PENDING
   \<and> msg_mode job_t2v = T2V
   \<and> (\<exists>a. minio (deliver env_ok world_t2v_queued job_t2v) =
            (minio world_t2v_queued)
              ((MINIO_BUCKET_PROCESSED, msg_task_id job_t2v @ ''.wav'') \<mapsto> a))
   \<and> state (AsyncResult (deliver env_ok world_t2v_queued job_t2v) (msg_task_id job_t2v))
       = C_SUCCESS
   \<and> info (AsyncResult (deliver env_ok world_t2v_queued job_t2v) (msg_task_id job_t2v))
       = Returned [(''output_object_name'', ''job-1.wav'')]
   \<and> backend (deliver env_ok (deliver env_ok world_t2v_queued job_t2v) job_t2v)
         (msg_task_id job_t2v)
       = Some \<lparr>state = C_SUCCESS, info = Returned [(''output_object_name'', ''job-1.wav'')]\<rparr>
   \<and> backend (deliver env_tts_down (deliver env_ok world_t2v_queued job_t2v) job_t2v)
         (msg_task_id job_t2v)
       = Some \<lparr>state = C_SUCCESS, info = Returned [(''output_object_name'', ''job-1.wav'')]\<rparr>
   \<and> minio (deliver env_ok (deliver env_ok world_t2v_queued job_t2v) job_t2v)
       = minio (deliver env_ok world_t2v_queued job_t2v)
   \<and> dom (minio (deliver env_ok world_t2v_queued job_t2v))
       = insert (MINIO_BUCKET_PROCESSED, msg_task_id job_t2v @ ''.wav'')
           (dom (minio world_t2v_queued))
   \<and> fst (process_pipeline env_other_voice
            (store_result (deliver env_ok world_t2v_queued job_t2v) (msg_task_id job_t2v)
               C_STARTED NoInfo)
            job_t2v (msg_mode job_t2v) (msg_input job_t2v))
       = Return [(''output_object_name'', ''job-1.wav'')]
   \<and> dom (minio (deliver env_other_voice (deliver env_ok world_t2v_queued job_t2v) job_t2v))
       = dom (minio (deliver env_ok world_t2v_queued job_t2v))"
proof -
  let ?w' = "deliver env_ok world_t2v_queued job_t2v"
  let ?r = "[(''output_object_name'', ''job-1.wav'')]"
  have mode: "msg_mode job_t2v = T2V" by (simp add: job_t2v_def)
  have h2: "state (AsyncResult world_t2v_queued (msg_task_id job_t2v)) = C_PENDING"
    using t2v_queued_pending by (simp add: job_t2v_def)
  from deliver_minio_T2V [OF t2v_ok_returns mode]
  have ex: "\<exists>a. minio ?w' =
               (minio world_t2v_queued)
                 ((MINIO_BUCKET_PROCESSED, msg_task_id job_t2v @ ''.wav'') \<mapsto> a)" .
  with mode
  have h3: "minio ?w' = minio world_t2v_queued
      \<or> (msg_mode job_t2v = T2V
         \<and> (\<exists>a. minio ?w' =
               (minio world_t2v_queued)
                 ((MINIO_BUCKET_PROCESSED, msg_task_id job_t2v @ ''.wav'') \<mapsto> a)))"
    by blast
  have s: "state (AsyncResult ?w' (msg_task_id job_t2v)) = C_SUCCESS"
    and i: "info (AsyncResult ?w' (msg_task_id job_t2v)) = Returned ?r"
    by (simp_all add: t2v_delivered)
  from i have h4: "state (AsyncResult ?w' (msg_task_id job_t2v)) = C_SUCCESS \<longrightarrow>
           info (AsyncResult ?w' (msg_task_id job_t2v)) = Returned ?r"
    by simp
  note down = redelivery_same_terminal_state
                [OF t2v_ok_returns t2v_queued_fresh h3 h4, of env_tts_down]
  note other = redelivery_same_terminal_state
                [OF t2v_ok_returns t2v_queued_fresh h3 h4, of env_other_voice]
  have c2: "backend (deliver env_ok ?w' job_t2v) (msg_task_id job_t2v)
              = Some \<lparr>state = C_SUCCESS, info = Returned ?r\<rparr>"
    using down by blast
  have c3: "backend (deliver env_tts_down ?w' job_t2v) (msg_task_id job_t2v)
              = Some \<lparr>state = C_SUCCESS, info = Returned ?r\<rparr>"
    using down s by blast
  have c4: "minio (deliver env_ok ?w' job_t2v) = minio ?w'"
    using down by blast
  have c5: "dom (minio ?w') =
              insert (MINIO_BUCKET_PROCESSED, msg_task_id job_t2v @ ''.wav'')
                (dom (minio world_t2v_queued))"
    using down mode by blast
  have c6: "dom (minio (deliver env_other_voice ?w' job_t2v)) = dom (minio ?w')"
    using other mode t2v_other_returns by blast
  from t2v_ok_returns h2 mode ex s i c2 c3 c4 c5 t2v_other_returns c6
  show ?thesis by (intro conjI)
qed

section \<open>Polling\<close>


lemma parse_status_str [simp]: "parse_status (str_status s) = Some s"
  by (cases s) (simp_all add: parse_status_def)

lemma map_of_opt_item:
  "map_of (opt_item k v @ rest) k' = (if k' = k \<and> v \<noteq> None then v else map_of rest k')"
  by (cases v) (simp_all add: opt_item_def)










end
